theory Spec2Isabelle
  imports Complex_Main
begin

section \<open>Python exceptions\<close>

text \<open>
  The exception classes the three source files raise or catch. A handler
  \<^verbatim>\<open>except KeyError\<close> or \<^verbatim>\<open>except RuntimeError\<close> also catches instances of subclasses;
  such an instance is represented by the class the handler sees. \<open>OtherError\<close> stands
  for an exception of any class that neither of these two handlers catches and that is
  not one of the named classes.
\<close>

datatype py_exc =
    KeyError | IndexError | RuntimeError | ValueError | TypeError
  | AttributeError | NameError | OtherError string

section \<open>Inference gateway (android\_world/agents/infer.py)\<close>

definition ERROR_CALLING_LLM :: string where
  "ERROR_CALLING_LLM = ''Error calling LLM''"

subsection \<open>Constructors\<close>

text \<open>\<^verbatim>\<open>os.environ\<close> is a dictionary from names to strings.\<close>

type_synonym environ = "string \<rightharpoonup> string"

definition TIME_BETWEEN_REQUESTS :: real where
  "TIME_BETWEEN_REQUESTS = 15"

definition RETRY_WAITING_SECONDS :: int where
  "RETRY_WAITING_SECONDS = 20"

text \<open>
  The client library of the Gemini gateway. \<^verbatim>\<open>genai.configure(api_key=...)\<close> stores the key
  and returns. \<^verbatim>\<open>genai.GenerativeModel(model_name, generation_config=...)\<close> makes no
  remote call; it puts \<^verbatim>\<open>models/\<close> before a name that has no slash, and its test for the
  slash raises TypeError when the name is \<^verbatim>\<open>None\<close>, which is the default of the
  constructor's argument. A model is represented by its full name.
\<close>

definition GenerativeModel :: "string option \<Rightarrow> py_exc + string" where
  "GenerativeModel model_name =
     (case model_name of
        None \<Rightarrow> Inl TypeError
      | Some n \<Rightarrow> Inr (if CHR ''/'' \<in> set n then n else ''models/'' @ n))"

record GeminiGcpWrapper =
  llm :: string
  gemini_max_retry :: int
  time_of_last_request :: real

record Gpt4Wrapper =
  openai_api_key :: string
  gpt_max_retry :: int
  gpt_model :: string

text \<open>
  \<^verbatim>\<open>GeminiGcpWrapper.__init__\<close>, in the order of its statements: the test for the
  credential, the two library calls, the retry budget, the stamp. \<open>now\<close> is the reading
  of \<^verbatim>\<open>time.time()\<close>.
\<close>

definition GeminiGcpWrapper_init ::
  "environ \<Rightarrow> real \<Rightarrow> string option \<Rightarrow> int \<Rightarrow> py_exc + GeminiGcpWrapper" where
  "GeminiGcpWrapper_init env now model_name max_retry =
     (if env ''GCP_API_KEY'' = None then Inl RuntimeError
      else
        (case GenerativeModel model_name of
           Inl e \<Rightarrow> Inl e
         | Inr model \<Rightarrow>
             let max_retry1 = (if max_retry \<le> 0 then 3 else max_retry)
             in Inr \<lparr> llm = model,
                      gemini_max_retry = min max_retry1 5,
                      time_of_last_request = now - TIME_BETWEEN_REQUESTS \<rparr>))"

text \<open>\<^verbatim>\<open>Gpt4Wrapper.__init__\<close>.\<close>

definition Gpt4Wrapper_init ::
  "environ \<Rightarrow> string \<Rightarrow> int \<Rightarrow> py_exc + Gpt4Wrapper" where
  "Gpt4Wrapper_init env model_name max_retry =
     (case env ''OPENAI_API_KEY'' of
        None \<Rightarrow> Inl RuntimeError
      | Some key \<Rightarrow>
          let max_retry1 = (if max_retry \<le> 0 then 3 else max_retry)
          in Inr \<lparr> openai_api_key = key,
                   gpt_max_retry = min max_retry1 5,
                   gpt_model = model_name \<rparr>)"

subsection \<open>Variant B: \<^verbatim>\<open>Gpt4Wrapper.predict_mm\<close>\<close>

text \<open>
  What one \<^verbatim>\<open>requests.post\<close> can give back. The loop looks at a response through
  \<^verbatim>\<open>response.ok\<close>, \<^verbatim>\<open>'choices' in response.json()\<close>, the content of the first choice
  and \<^verbatim>\<open>response.json()['error']['message']\<close>; each of these reads can raise, and every
  exception inside the \<^verbatim>\<open>try\<close> reaches the one handler.
  \<^item> \<open>Unparseable\<close>: \<^verbatim>\<open>response.json()\<close> raises;
  \<^item> \<open>Parsed c m\<close>: the body is a JSON object; \<open>c = None\<close> when it has no key
    \<^verbatim>\<open>'choices'\<close>, \<open>c = Some None\<close> when the key is there and reading the content raises,
    \<open>c = Some (Some t)\<close> when the content is \<open>t\<close>; \<open>m = None\<close> when reading the error
    message raises, \<open>m = Some s\<close> when it is the string \<open>s\<close>.
\<close>

datatype http_body = Unparseable | Parsed "string option option" "string option"

record http_response =
  ok :: bool
  body :: http_body

datatype post_outcome = PostRaises py_exc | PostReturns http_response

text \<open>The backend answers the \<open>k\<close>-th remote call (counted from 0) of one \<^verbatim>\<open>predict_mm\<close>.\<close>

type_synonym backend = "nat \<Rightarrow> post_outcome"

text \<open>
  The state of the loop next to \<open>counter\<close> and \<open>wait_seconds\<close>: the number of remote
  calls made so far and the arguments of the \<^verbatim>\<open>time.sleep\<close> calls, in order.
\<close>

record gpt_trace =
  calls :: nat
  sleeps :: "int list"

datatype attempt = Return string http_response | Failed_counted | Failed_uncounted

text \<open>
  One pass through the \<^verbatim>\<open>try\<close> block: a return, a failure that went through the handler
  (which decrements \<open>counter\<close>), or a failure that did not.
\<close>

definition try_post :: "post_outcome \<Rightarrow> attempt" where
  "try_post r =
     (case r of
        PostRaises e \<Rightarrow> Failed_counted
      | PostReturns response \<Rightarrow>
          (case body response of
             Unparseable \<Rightarrow> Failed_counted
           | Parsed c m \<Rightarrow>
               if ok response \<and> c \<noteq> None
               then (case c of Some (Some t) \<Rightarrow> Return t response | _ \<Rightarrow> Failed_counted)
               else (case m of None \<Rightarrow> Failed_counted | Some msg \<Rightarrow> Failed_uncounted)))"

text \<open>
  The \<^verbatim>\<open>while counter > 0\<close> loop. It need not end, so the result is an option: \<open>None\<close>
  is the loop that runs forever.
\<close>

partial_function (option) gpt_loop ::
  "backend \<Rightarrow> int \<Rightarrow> int \<Rightarrow> gpt_trace \<Rightarrow> ((string \<times> http_response option) \<times> gpt_trace) option" where
  "gpt_loop b counter wait_seconds tr =
     (if counter > 0 then
        (let tr1 = tr\<lparr>calls := Suc (calls tr)\<rparr> in
         case try_post (b (calls tr)) of
           Return t response \<Rightarrow> Some ((t, Some response), tr1)
         | Failed_uncounted \<Rightarrow>
             gpt_loop b counter (wait_seconds * 2) (tr1\<lparr>sleeps := sleeps tr1 @ [wait_seconds]\<rparr>)
         | Failed_counted \<Rightarrow>
             gpt_loop b (counter - 1) (wait_seconds * 2) (tr1\<lparr>sleeps := sleeps tr1 @ [wait_seconds]\<rparr>))
      else Some ((ERROR_CALLING_LLM, None), tr))"

declare gpt_loop.simps [code]

definition gpt_predict_mm ::
  "Gpt4Wrapper \<Rightarrow> backend \<Rightarrow> ((string \<times> http_response option) \<times> gpt_trace) option" where
  "gpt_predict_mm self b =
     gpt_loop b (gpt_max_retry self) RETRY_WAITING_SECONDS \<lparr>calls = 0, sleeps = []\<rparr>"

subsection \<open>Variant A: \<^verbatim>\<open>GeminiGcpWrapper.predict_mm\<close>\<close>



text \<open>
  \<open>requests\<close> lists the clock readings at which \<^verbatim>\<open>generate_content\<close> was called, in
  order; \<open>naps\<close> the arguments of the sleeps.
\<close>

record clock_world =
  now :: real
  requests :: "real list"
  naps :: "real list"






section \<open>Observation recovery (android\_world/env/ui\_tree\_wrapper.py)\<close>

text \<open>
  An environment object is an instance of the wrapper looked for or not, and has an
  attribute \<^verbatim>\<open>_env\<close> or not.
\<close>

datatype env_obj = EnvObj bool "env_obj option"

fun has_wrapper :: "env_obj \<Rightarrow> bool" where
  "has_wrapper (EnvObj is_target inner) =
     (if is_target then True
      else (case inner of Some e \<Rightarrow> has_wrapper e | None \<Rightarrow> False))"

datatype forest = Forest nat

type_synonym extras = "string \<rightharpoonup> forest list"

datatype poll_outcome = ExtrasRaises py_exc | Extras extras

text \<open>
  A device session: its wrapper chain, what
  \<^verbatim>\<open>adb_utils.retry(3)(adb_utils.check_airplane_mode)(env)\<close> does on it, what the
  \<open>n\<close>-th call of \<^verbatim>\<open>accumulate_new_extras()\<close> does (counted from 0), and how many such
  calls were made.
\<close>

record session =
  chain :: env_obj
  airplane_probe :: "py_exc + bool"
  extras_feed :: "nat \<Rightarrow> poll_outcome"
  polled :: nat

datatype event = Poll | Sleep real | EnableNetworking | Reconnect

text \<open>\<^verbatim>\<open>env.accumulate_new_extras()['accessibility_tree'][-1]\<close>\<close>

definition read_forest :: "poll_outcome \<Rightarrow> py_exc + forest" where
  "read_forest r =
     (case r of
        ExtrasRaises e \<Rightarrow> Inl e
      | Extras d \<Rightarrow>
          (case d ''accessibility_tree'' of
             None \<Rightarrow> Inl KeyError
           | Some [] \<Rightarrow> Inl IndexError
           | Some (t # ts) \<Rightarrow> Inr (last (t # ts))))"

text \<open>
  The \<^verbatim>\<open>for _ in range(max_retries)\<close> loop with the statements after it. The variable
  \<^verbatim>\<open>forest\<close> is assigned only in the statement before \<^verbatim>\<open>return forest\<close>, so it is
  \<^verbatim>\<open>None\<close> whenever the loop runs out, and the function raises.
\<close>

fun poll_loop ::
  "nat \<Rightarrow> real \<Rightarrow> session \<Rightarrow> event list \<Rightarrow> (py_exc + forest) \<times> session \<times> event list" where
  "poll_loop 0 sleep_duration s ev = (Inl RuntimeError, s, ev)"
| "poll_loop (Suc n) sleep_duration s ev =
     (let s1 = s\<lparr>polled := Suc (polled s)\<rparr>; ev1 = ev @ [Poll]
      in case read_forest (extras_feed s (polled s)) of
           Inr f \<Rightarrow> (Inr f, s1, ev1)
         | Inl e \<Rightarrow>
             if e = KeyError then poll_loop n sleep_duration s1 (ev1 @ [Sleep sleep_duration])
             else (Inl e, s1, ev1))"

definition get_a11y_tree ::
  "session \<Rightarrow> int \<Rightarrow> real \<Rightarrow> (py_exc + forest) \<times> session \<times> event list" where
  "get_a11y_tree env max_retries sleep_duration =
     (if \<not> has_wrapper (chain env) then (Inl ValueError, env, [])
      else
        (case airplane_probe env of
           Inl e \<Rightarrow> (Inl e, env, [])
         | Inr on \<Rightarrow>
             poll_loop (nat max_retries) sleep_duration env
               (if on then [EnableNetworking, Sleep 1] else [])))"

text \<open>
  \<^verbatim>\<open>UITreeWrapper.get_a11y_forest\<close>. \<open>fresh\<close> is what \<^verbatim>\<open>refresh_env\<close> does: it raises, or
  it sets \<^verbatim>\<open>self._env\<close> to a new session.
\<close>

definition get_a11y_forest ::
  "(py_exc + session) \<Rightarrow> session \<Rightarrow> (py_exc + forest) \<times> session \<times> event list" where
  "get_a11y_forest fresh env =
     (case get_a11y_tree env 5 1 of
        (Inr f, env1, ev) \<Rightarrow> (Inr f, env1, ev)
      | (Inl e, env1, ev) \<Rightarrow>
          if e = RuntimeError then
            (case fresh of
               Inl e2 \<Rightarrow> (Inl e2, env1, ev @ [Reconnect])
             | Inr env2 \<Rightarrow>
                 (case get_a11y_tree env2 5 1 of
                    (r, env3, ev2) \<Rightarrow> (r, env3, ev @ [Reconnect] @ ev2)))
          else (Inl e, env1, ev))"

definition polls :: "event list \<Rightarrow> nat" where
  "polls ev = length (filter (\<lambda>e. e = Poll) ev)"

definition reconnects :: "event list \<Rightarrow> nat" where
  "reconnects ev = length (filter (\<lambda>e. e = Reconnect) ev)"

section \<open>Episode driver (benchmark\_run.py)\<close>

subsection \<open>Values\<close>

text \<open>
  \<open>jval\<close>: the Python values \<^verbatim>\<open>json.dump\<close> can write. \<open>pyval\<close>: what the driver finds in
  \<^verbatim>\<open>response.data\<close>: such a value, a grounded action object, a screenshot buffer
  (with the exception \<^verbatim>\<open>Image.fromarray\<close> or \<^verbatim>\<open>save\<close> raises on it, if any), or the raw
  payload of a backend (a \<^verbatim>\<open>requests.Response\<close> or a dictionary) with the two token
  counts of its \<^verbatim>\<open>'usage'\<close> entry, if it has one.
\<close>

datatype jval = JNull | JInt int | JStr string | JList "jval list"

text \<open>
  The attributes of a grounded action that the driver reads; \<open>text_field\<close> is the
  attribute \<^verbatim>\<open>text\<close>.
\<close>

record json_action =
  action_type :: jval
  text_field :: jval
  app_name :: jval
  direction :: jval

datatype raw_kind = Http | Dict

datatype pyval =
    Plain jval
  | Action json_action
  | Pixels "py_exc option"
  | RawResponse raw_kind "(int \<times> int) option"

text \<open>
  The builtins the driver formats with: \<^verbatim>\<open>str\<close> on the values put into an f-string and
  on an exception.
\<close>

record builtins =
  py_str :: "jval \<Rightarrow> string"
  exc_str :: "py_exc \<Rightarrow> string"

datatype agent_kind = T3A | M3A | SeeAct

definition screenshot_key :: "agent_kind \<Rightarrow> string" where
  "screenshot_key a = (if a = SeeAct then ''screenshot'' else ''benchmark_screenshot'')"

definition grounded_action_key :: "agent_kind \<Rightarrow> string" where
  "grounded_action_key a = (if a = SeeAct then ''action'' else ''converted_action'')"

definition log_keys :: "agent_kind \<Rightarrow> string list" where
  "log_keys a = (if a = SeeAct then [''action_gen_response'', ''action_ground_response'']
                 else [''action_output'', ''summary''])"

definition raw_response_key :: "agent_kind \<Rightarrow> string list" where
  "raw_response_key a =
     (if a = SeeAct then [''raw_action_gen_response'', ''raw_action_ground_response'']
      else [''action_raw_response'', ''summary_raw_response''])"

text \<open>What \<^verbatim>\<open>agent.step\<close> returns; \<open>done_flag\<close> is its attribute \<^verbatim>\<open>done\<close>.\<close>

record response =
  data :: "string \<rightharpoonup> pyval"
  done_flag :: bool

datatype step_outcome = StepRaises py_exc | StepReturns response

text \<open>The outcome of \<^verbatim>\<open>agent.step(args.task)\<close> in the iteration with the given \<^verbatim>\<open>action_cnt\<close>.\<close>

type_synonym agent = "int \<Rightarrow> step_outcome"

subsection \<open>Action normalization\<close>

record action_log =
  logged_type :: string
  detail_type :: string
  detail :: pyval

definition lookup :: "(string \<rightharpoonup> pyval) \<Rightarrow> string \<Rightarrow> py_exc + pyval" where
  "lookup d k = (case d k of None \<Rightarrow> Inl KeyError | Some v \<Rightarrow> Inr v)"

text \<open>
  \<^verbatim>\<open>a, b, c, d = v\<close>. A list or a string of four items unpacks; a list or string of
  another length raises ValueError; \<^verbatim>\<open>None\<close>, a number and an action object are not
  iterable. A screenshot buffer and a backend payload are iterable, with more than four
  items.
\<close>

definition unpack4 :: "pyval \<Rightarrow> py_exc + jval \<times> jval \<times> jval \<times> jval" where
  "unpack4 v =
     (case v of
        Plain (JList [a, b, c, d]) \<Rightarrow> Inr (a, b, c, d)
      | Plain (JList xs) \<Rightarrow> Inl ValueError
      | Plain (JStr [a, b, c, d]) \<Rightarrow> Inr (JStr [a], JStr [b], JStr [c], JStr [d])
      | Plain (JStr cs) \<Rightarrow> Inl ValueError
      | Plain JNull \<Rightarrow> Inl TypeError
      | Plain (JInt i) \<Rightarrow> Inl TypeError
      | Action a \<Rightarrow> Inl TypeError
      | Pixels e \<Rightarrow> Inl ValueError
      | RawResponse k u \<Rightarrow> Inl ValueError)"

definition string_detail :: "string \<Rightarrow> string \<Rightarrow> py_exc + action_log" where
  "string_detail t s = Inr \<lparr>logged_type = t, detail_type = ''string'', detail = Plain (JStr s)\<rparr>"

definition coordinates_detail :: "string \<Rightarrow> (string \<rightharpoonup> pyval) \<Rightarrow> py_exc + action_log" where
  "coordinates_detail t d =
     (case lookup d ''actual_action_coordinates'' of
        Inl e \<Rightarrow> Inl e
      | Inr v \<Rightarrow> Inr \<lparr>logged_type = t, detail_type = ''coordinates'', detail = v\<rparr>)"

text \<open>The \<^verbatim>\<open>if\<close>/\<^verbatim>\<open>elif\<close> chain on \<^verbatim>\<open>converted_action.action_type\<close>, in the source's order.\<close>

definition by_action_type ::
  "(jval \<Rightarrow> string) \<Rightarrow> (string \<rightharpoonup> pyval) \<Rightarrow> json_action \<Rightarrow> py_exc + action_log" where
  "by_action_type str d converted_action =
     (if action_type converted_action = JStr ''click'' then coordinates_detail ''click'' d
      else if action_type converted_action = JStr ''double_tap'' then coordinates_detail ''double_tap'' d
      else if action_type converted_action = JStr ''input_text'' then
        string_detail ''input_text''
          (''The text '' @ [CHR 0x22] @ str (text_field converted_action) @ [CHR 0x22]
             @ '' has been inputted.'')
      else if action_type converted_action = JStr ''keyboard_enter'' then
        string_detail ''keyboard_enter'' []
      else if action_type converted_action = JStr ''long_press'' then coordinates_detail ''long_press'' d
      else if action_type converted_action = JStr ''navigate_back'' then
        string_detail ''navigate_back'' ''Back to the previous page.''
      else if action_type converted_action = JStr ''navigate_home'' then
        string_detail ''navigate_home'' ''Return to home page.''
      else if action_type converted_action = JStr ''open_app'' then
        Inr \<lparr>logged_type = ''open_app'', detail_type = ''string'',
             detail = Plain (app_name converted_action)\<rparr>
      else if action_type converted_action = JStr ''scroll'' then
        (case lookup d ''actual_action_coordinates'' of
           Inl e \<Rightarrow> Inl e
         | Inr v \<Rightarrow>
             (case unpack4 v of
                Inl e \<Rightarrow> Inl e
              | Inr (x, y, u1, u2) \<Rightarrow>
                  string_detail ''scroll''
                    (''The coordinates ('' @ str x @ '','' @ str y @ '') have been swiped to the ''
                       @ str (direction converted_action) @ ''.'')))
      else if action_type converted_action = JStr ''status'' then
        string_detail ''status'' ''Task completed.''
      else if action_type converted_action = JStr ''swipe'' then
        (case lookup d ''actual_action_coordinates'' of
           Inl e \<Rightarrow> Inl e
         | Inr v \<Rightarrow>
             (case unpack4 v of
                Inl e \<Rightarrow> Inl e
              | Inr (x1, y1, x2, y2) \<Rightarrow>
                  string_detail ''swipe''
                    (''The swipe action has been performed starting from coordinates (''
                       @ str x1 @ '','' @ str y1 @ '') to ('' @ str x2 @ '','' @ str y2 @ '').'')))
      else string_detail ''wait'' ''No action has been taken.'')"

text \<open>
  Lines 94 to 139: from \<^verbatim>\<open>response.data\<close> to the pair \<^verbatim>\<open>action_log\<close>. Reading
  \<^verbatim>\<open>.action_type\<close> of a value that is neither a string nor an action object raises.
\<close>

definition normalize_action ::
  "(jval \<Rightarrow> string) \<Rightarrow> (string \<rightharpoonup> pyval) \<Rightarrow> string \<Rightarrow> py_exc + action_log" where
  "normalize_action str d key =
     (case lookup d key of
        Inl e \<Rightarrow> Inl e
      | Inr converted_action \<Rightarrow>
          (case converted_action of
             Plain (JStr s) \<Rightarrow> string_detail ''wait'' []
           | Plain other \<Rightarrow> Inl AttributeError
           | Action a \<Rightarrow> by_action_type str d a
           | Pixels e \<Rightarrow> Inl AttributeError
           | RawResponse k u \<Rightarrow> Inl AttributeError))"

subsection \<open>Token accounting\<close>

text \<open>
  \<^verbatim>\<open>response.data[key].json()['usage'][...]\<close> for the agents M3A and T3A,
  \<^verbatim>\<open>response.data[key]['usage'][...]\<close> for SeeAct.
\<close>

definition usage_of :: "agent_kind \<Rightarrow> pyval \<Rightarrow> py_exc + int \<times> int" where
  "usage_of a v =
     (if a = SeeAct then
        (case v of
           RawResponse Dict (Some u) \<Rightarrow> Inr u
         | RawResponse Dict None \<Rightarrow> Inl KeyError
         | Pixels e \<Rightarrow> Inl IndexError
         | other \<Rightarrow> Inl TypeError)
      else
        (case v of
           RawResponse Http (Some u) \<Rightarrow> Inr u
         | RawResponse Http None \<Rightarrow> Inl KeyError
         | other \<Rightarrow> Inl AttributeError))"

text \<open>
  The two sums over \<^verbatim>\<open>raw_response_key\<close>, skipping the entries that are \<^verbatim>\<open>None\<close>. Both
  comprehensions read the same entries, so they raise together.
\<close>

fun sum_tokens :: "agent_kind \<Rightarrow> (string \<rightharpoonup> pyval) \<Rightarrow> string list \<Rightarrow> py_exc + int \<times> int" where
  "sum_tokens a d [] = Inr (0, 0)"
| "sum_tokens a d (key # keys) =
     (case lookup d key of
        Inl e \<Rightarrow> Inl e
      | Inr v \<Rightarrow>
          if v = Plain JNull then sum_tokens a d keys
          else
            (case usage_of a v of
               Inl e \<Rightarrow> Inl e
             | Inr (p, c) \<Rightarrow>
                 (case sum_tokens a d keys of
                    Inl e \<Rightarrow> Inl e
                  | Inr (ps, cs) \<Rightarrow> Inr (p + ps, c + cs))))"

text \<open>\<^verbatim>\<open>{key: response.data[key] for key in log_keys}\<close>\<close>

fun collect :: "(string \<rightharpoonup> pyval) \<Rightarrow> string list \<Rightarrow> py_exc + (string \<times> pyval) list" where
  "collect d [] = Inr []"
| "collect d (key # keys) =
     (case lookup d key of
        Inl e \<Rightarrow> Inl e
      | Inr v \<Rightarrow> (case collect d keys of Inl e \<Rightarrow> Inl e | Inr kvs \<Rightarrow> Inr ((key, v) # kvs)))"

subsection \<open>The log and the output directory\<close>

record step_entry =
  step :: int
  logged :: "(string \<times> pyval) list"
  prompt_tokens :: int
  completion_tokens :: int
  action :: action_log

record summary_entry =
  total_steps :: int
  finish_signal :: int
  elapsed_time_initial :: real
  elapsed_time_exec :: real
  sum_prompt_tokens :: int
  sum_completion_tokens :: int

datatype log_entry = StepEntry step_entry | SummaryEntry summary_entry

text \<open>
  The files of \<^verbatim>\<open>args.output_dir\<close>: \<^verbatim>\<open>error.json\<close> (the messages of its array of
  \<^verbatim>\<open>{"error_message": ...}\<close> objects), \<^verbatim>\<open>log.json\<close> and the numbers of the screenshots
  saved. A file that is not there is \<open>None\<close>.
\<close>

record output_dir =
  error_json :: "string list option"
  log_json :: "log_entry list option"
  pngs :: "int list"

definition print_and_log_error :: "string \<Rightarrow> output_dir \<Rightarrow> output_dir" where
  "print_and_log_error error_message dir =
     (if error_json dir = None then dir\<lparr>error_json := Some [error_message]\<rparr> else dir)"

subsection \<open>The step loop\<close>

record run_state =
  is_done :: bool
  benchmark_log :: "log_entry list"
  error_code :: int
  total_prompt_tokens :: int
  total_completion_tokens :: int
  action_cnt :: "int option"
  dir :: output_dir

definition save_screenshot :: "pyval \<Rightarrow> py_exc option" where
  "save_screenshot v = (case v of Pixels r \<Rightarrow> r | other \<Rightarrow> Some AttributeError)"

text \<open>
  The second \<^verbatim>\<open>try\<close> block up to the append, lines 90 to 153. The result is the exception
  raised, if any, and the state the block leaves behind: a screenshot saved and totals
  added before the exception stay.
\<close>

definition handle_log ::
  "builtins \<Rightarrow> agent_kind \<Rightarrow> int \<Rightarrow> response \<Rightarrow> run_state \<Rightarrow> py_exc option \<times> run_state" where
  "handle_log bi a cnt resp st =
     (case lookup (data resp) (screenshot_key a) of
        Inl e \<Rightarrow> (Some e, st)
      | Inr shot \<Rightarrow>
          (case save_screenshot shot of
             Some e \<Rightarrow> (Some e, st)
           | None \<Rightarrow>
               (let st1 = st\<lparr>dir := (dir st)\<lparr>pngs := pngs (dir st) @ [cnt - 1]\<rparr>\<rparr>
                in case normalize_action (py_str bi) (data resp) (grounded_action_key a) of
                     Inl e \<Rightarrow> (Some e, st1)
                   | Inr alog \<Rightarrow>
                       (case sum_tokens a (data resp) (raw_response_key a) of
                          Inl e \<Rightarrow> (Some e, st1)
                        | Inr (p, c) \<Rightarrow>
                            (let st2 = st1\<lparr>total_prompt_tokens := total_prompt_tokens st1 + p,
                                           total_completion_tokens := total_completion_tokens st1 + c\<rparr>
                             in case collect (data resp) (log_keys a) of
                                  Inl e \<Rightarrow> (Some e, st2)
                                | Inr kvs \<Rightarrow>
                                    (None,
                                     st2\<lparr>benchmark_log := benchmark_log st2 @
                                            [StepEntry \<lparr>step = cnt, logged = kvs,
                                                        prompt_tokens = p, completion_tokens = c,
                                                        action = alog\<rparr>]\<rparr>))))))"

text \<open>
  \<^verbatim>\<open>for action_cnt in range(1, args.max_rounds + 1)\<close>, over the values still to come. The
  loop variable is bound only once an iteration starts.
\<close>

fun step_loop :: "builtins \<Rightarrow> agent_kind \<Rightarrow> agent \<Rightarrow> int list \<Rightarrow> run_state \<Rightarrow> run_state" where
  "step_loop bi a ag [] st = st"
| "step_loop bi a ag (cnt # rest) st =
     (let st0 = st\<lparr>action_cnt := Some cnt\<rparr>
      in case ag cnt of
           StepRaises e \<Rightarrow>
             st0\<lparr>dir := print_and_log_error (''Error taking step: '' @ exc_str bi e) (dir st0),
                 error_code := 2\<rparr>
         | StepReturns resp \<Rightarrow>
             (case handle_log bi a cnt resp st0 of
                (Some e, st1) \<Rightarrow>
                  st1\<lparr>dir := print_and_log_error (''Error handling log: '' @ exc_str bi e) (dir st1),
                      error_code := 1\<rparr>
              | (None, st1) \<Rightarrow>
                  if done_flag resp then st1\<lparr>is_done := True\<rparr>
                  else step_loop bi a ag rest st1))"

subsection \<open>After the loop\<close>

record clock_readings =
  start_time_initial :: real
  end_time_initial :: real
  start_time_exec :: real
  end_time_exec :: real

record args =
  agent_arg :: agent_kind
  max_rounds :: int

datatype exit_status = Exit int | Uncaught py_exc

text \<open>
  What \<^verbatim>\<open>json.dump\<close> can write of the values found in \<^verbatim>\<open>response.data\<close>: the plain values
  and a payload that is a dictionary, not an action object, a screenshot buffer or a
  \<^verbatim>\<open>requests.Response\<close>.
\<close>

definition dumpable :: "pyval \<Rightarrow> bool" where
  "dumpable v =
     (case v of
        Plain j \<Rightarrow> True
      | Action a \<Rightarrow> False
      | Pixels e \<Rightarrow> False
      | RawResponse Http u \<Rightarrow> False
      | RawResponse Dict u \<Rightarrow> True)"

definition json_ok :: "log_entry \<Rightarrow> bool" where
  "json_ok e =
     (case e of
        SummaryEntry s \<Rightarrow> True
      | StepEntry s \<Rightarrow> list_all (\<lambda>kv. dumpable (snd kv)) (logged s) \<and> dumpable (detail (action s)))"

definition init_state :: "output_dir \<Rightarrow> run_state" where
  "init_state d =
     \<lparr>is_done = False, benchmark_log = [], error_code = 0, total_prompt_tokens = 0,
      total_completion_tokens = 0, action_cnt = None, dir = d\<rparr>"

text \<open>Lines 177 to 188.\<close>

definition exit_code :: "int \<Rightarrow> run_state \<Rightarrow> int \<Rightarrow> int" where
  "exit_code rounds st cnt =
     (if error_code st \<in> {2, 3} then error_code st
      else if is_done st then 0
      else if cnt = rounds then 4
      else 1)"

text \<open>
  The script from the loop on (lines 74 to 188), started in the given output directory.
  Reading the unbound \<^verbatim>\<open>action_cnt\<close> on line 169 raises NameError, and \<^verbatim>\<open>json.dump\<close>
  raises TypeError on a value it cannot write, after the file was opened: neither is
  caught, and no complete \<^verbatim>\<open>log.json\<close> is left.
\<close>

definition run ::
  "builtins \<Rightarrow> clock_readings \<Rightarrow> args \<Rightarrow> agent \<Rightarrow> output_dir \<Rightarrow> output_dir \<times> exit_status" where
  "run bi clk ar ag d0 =
     (let st = step_loop bi (agent_arg ar) ag [1 .. max_rounds ar] (init_state d0)
      in case action_cnt st of
           None \<Rightarrow> (dir st, Uncaught NameError)
         | Some cnt \<Rightarrow>
             (let lg = benchmark_log st @
                    [SummaryEntry
                       \<lparr>total_steps = cnt - 1,
                        finish_signal = (if is_done st then 1 else 0),
                        elapsed_time_initial = end_time_initial clk - start_time_initial clk,
                        elapsed_time_exec = end_time_exec clk - start_time_exec clk,
                        sum_prompt_tokens = total_prompt_tokens st,
                        sum_completion_tokens = total_completion_tokens st\<rparr>]
              in if list_all json_ok lg
                 then ((dir st)\<lparr>log_json := Some lg\<rparr>, Exit (exit_code (max_rounds ar) st cnt))
                 else ((dir st)\<lparr>log_json := None\<rparr>, Uncaught TypeError)))"

section \<open>Vocabulary of the properties\<close>

subsection \<open>Observation capture\<close>

text \<open>A poll that finds no snapshot: the read raises KeyError.\<close>

definition misses :: "session \<Rightarrow> nat \<Rightarrow> bool" where
  "misses s n = (read_forest (extras_feed s n) = Inl KeyError)"

text \<open>
  A session on which \<^verbatim>\<open>get_a11y_tree\<close> reaches its polling loop: the wrapper is there and
  the airplane-mode probe returns.
\<close>

definition ready :: "session \<Rightarrow> bool" where
  "ready s = (has_wrapper (chain s) \<and> (case airplane_probe s of Inl e \<Rightarrow> False | Inr on \<Rightarrow> True))"

text \<open>Sessions to run the functions on: an accessibility wrapper around a base environment.\<close>

definition session_with :: "(nat \<Rightarrow> poll_outcome) \<Rightarrow> session" where
  "session_with feed =
     \<lparr>chain = EnvObj True (Some (EnvObj False None)), airplane_probe = Inr False,
      extras_feed = feed, polled = 0\<rparr>"

definition snapshot_at :: "nat \<Rightarrow> session" where
  "snapshot_at j =
     session_with (\<lambda>n. if n = j then Extras [''accessibility_tree'' \<mapsto> [Forest 1, Forest 2]]
                        else Extras Map.empty)"

definition stalled_session :: session where
  "stalled_session = session_with (\<lambda>n. Extras Map.empty)"

definition empty_list_session :: session where
  "empty_list_session = session_with (\<lambda>n. Extras [''accessibility_tree'' \<mapsto> []])"

definition failing_poll_session :: session where
  "failing_poll_session = session_with (\<lambda>n. ExtrasRaises RuntimeError)"

subsection \<open>Inference gateway\<close>


text \<open>
  Backends to run \<^verbatim>\<open>predict_mm\<close> on: one that answers every call with a non-2xx
  response carrying an error message, and one on which every call raises.
\<close>

definition rate_limited :: backend where
  "rate_limited k = PostReturns \<lparr>ok = False, body = Parsed None (Some ''Rate limit reached'')\<rparr>"

definition unreachable :: backend where
  "unreachable k = PostRaises (OtherError ''ConnectionError'')"


subsection \<open>Episode driver\<close>

text \<open>The tags of the action-type enumeration.\<close>

definition action_types :: "string list" where
  "action_types =
     [''click'', ''double_tap'', ''input_text'', ''keyboard_enter'', ''long_press'',
      ''navigate_back'', ''navigate_home'', ''open_app'', ''scroll'', ''status'', ''swipe'']"

text \<open>
  A stand-in for \<^verbatim>\<open>str\<close> in the examples: Python's text for \<^verbatim>\<open>None\<close>, an integer and a
  string. The examples format no list.
\<close>

fun show_nat :: "nat \<Rightarrow> string" where
  "show_nat n =
     (if n < 10 then [''0123456789'' ! n]
      else show_nat (n div 10) @ [''0123456789'' ! (n mod 10)])"

definition example_str :: "jval \<Rightarrow> string" where
  "example_str v =
     (case v of
        JNull \<Rightarrow> ''None''
      | JInt i \<Rightarrow> (if i < 0 then ''-'' @ show_nat (nat (- i)) else show_nat (nat i))
      | JStr s \<Rightarrow> s
      | JList xs \<Rightarrow> ''[]'')"

text \<open>Step data of the agent T3A: a grounded action, coordinates, two logged texts, one payload.\<close>

definition example_action :: "string \<Rightarrow> json_action" where
  "example_action tag =
     \<lparr>action_type = JStr tag, text_field = JStr ''hello'', app_name = JStr ''Clock'',
      direction = JStr ''down''\<rparr>"

definition example_data :: "pyval \<Rightarrow> string \<rightharpoonup> pyval" where
  "example_data grounded =
     [''benchmark_screenshot'' \<mapsto> Pixels None,
      ''converted_action'' \<mapsto> grounded,
      ''actual_action_coordinates'' \<mapsto> Plain (JList [JInt 540, JInt 1200, JInt 540, JInt 600]),
      ''action_output'' \<mapsto> Plain (JStr ''Reason: ... Action: ...''),
      ''summary'' \<mapsto> Plain (JStr ''Summary of the step.''),
      ''action_raw_response'' \<mapsto> RawResponse Http (Some (1200, 35)),
      ''summary_raw_response'' \<mapsto> Plain JNull]"

text \<open>An agent whose every step succeeds and whose second decision signals completion.\<close>

definition done_on_step_2 :: agent where
  "done_on_step_2 cnt =
     (if cnt = 2
      then StepReturns \<lparr>data = example_data (Action (example_action ''status'')), done_flag = True\<rparr>
      else StepReturns \<lparr>data = example_data (Action (example_action ''navigate_back'')),
                        done_flag = False\<rparr>)"

text \<open>
  An agent whose steps succeed and report a click, without the entry
  \<^verbatim>\<open>'actual_action_coordinates'\<close> the driver reads for a click.
\<close>

definition click_without_coordinates :: agent where
  "click_without_coordinates cnt =
     StepReturns
       \<lparr>data = [''benchmark_screenshot'' \<mapsto> Pixels None,
                ''converted_action'' \<mapsto> Action (example_action ''click'')],
        done_flag = False\<rparr>"

text \<open>The entries of the log that are step entries.\<close>

fun is_step :: "log_entry \<Rightarrow> bool" where
  "is_step (StepEntry e) = True"
| "is_step (SummaryEntry s) = False"

definition empty_dir :: output_dir where
  "empty_dir = \<lparr>error_json = None, log_json = None, pngs = []\<rparr>"

section \<open>Properties of the constructors\<close>

text \<open>
  Claim C6, as stated, fails for the Gemini gateway: with the credential in the
  environment and the model name left at its default, the constructor raises TypeError,
  here with the default \<open>max_retry = 3\<close>.
\<close>

theorem gemini_default_model_name_raises:
  "GeminiGcpWrapper_init [''GCP_API_KEY'' \<mapsto> ''key''] 100 None 3 = Inl TypeError"
  by (simp add: GeminiGcpWrapper_init_def GenerativeModel_def)

text \<open>
  Claim C6, amended. For both constructors and every integer \<open>max_retry\<close>: the retry
  budget of the instance is 3 when \<open>max_retry \<le> 0\<close>, 5 when \<open>max_retry > 5\<close>, and
  \<open>max_retry\<close> otherwise, and no value of \<open>max_retry\<close> makes the constructor raise. With
  the credential in the environment, the constructor of the OpenAI gateway returns an
  instance for every \<open>max_retry\<close>, and the constructor of the Gemini gateway returns an
  instance for every \<open>max_retry\<close> when a model name is given; whether the Gemini
  constructor raises, and what, is the same for any two values of \<open>max_retry\<close>.
\<close>

theorem retry_budget_never_rejected:
  "(environ ''GCP_API_KEY'' \<noteq> None \<and> model_name \<noteq> None \<longrightarrow>
      (\<exists>g. GeminiGcpWrapper_init environ t model_name max_retry = Inr g \<and>
           gemini_max_retry g = (if max_retry \<le> 0 then 3 else if max_retry > 5 then 5 else max_retry)))
   \<and> (GeminiGcpWrapper_init environ t model_name max_retry = Inl e)
       = (GeminiGcpWrapper_init environ t model_name other_max_retry = Inl e)
   \<and> (environ ''OPENAI_API_KEY'' \<noteq> None \<longrightarrow>
      (\<exists>g. Gpt4Wrapper_init environ model max_retry = Inr g \<and>
           gpt_max_retry g = (if max_retry \<le> 0 then 3 else if max_retry > 5 then 5 else max_retry)))"
proof (intro conjI impI)
  assume "environ ''GCP_API_KEY'' \<noteq> None \<and> model_name \<noteq> None"
  then show "\<exists>g. GeminiGcpWrapper_init environ t model_name max_retry = Inr g \<and>
           gemini_max_retry g = (if max_retry \<le> 0 then 3 else if max_retry > 5 then 5 else max_retry)"
    by (auto simp: GeminiGcpWrapper_init_def GenerativeModel_def Let_def min_def)
next
  show "(GeminiGcpWrapper_init environ t model_name max_retry = Inl e)
       = (GeminiGcpWrapper_init environ t model_name other_max_retry = Inl e)"
    by (cases model_name) (simp_all add: GeminiGcpWrapper_init_def GenerativeModel_def Let_def)
next
  assume "environ ''OPENAI_API_KEY'' \<noteq> None"
  then show "\<exists>g. Gpt4Wrapper_init environ model max_retry = Inr g \<and>
           gpt_max_retry g = (if max_retry \<le> 0 then 3 else if max_retry > 5 then 5 else max_retry)"
    by (auto simp: Gpt4Wrapper_init_def Let_def min_def)
qed

theorem retry_budget_never_rejected_witness:
  "[''GCP_API_KEY'' \<mapsto> ''k1'', ''OPENAI_API_KEY'' \<mapsto> ''k2''] ''GCP_API_KEY'' \<noteq> None
   \<and> Some ''gemini-1.5-pro'' \<noteq> None
   \<and> [''GCP_API_KEY'' \<mapsto> ''k1'', ''OPENAI_API_KEY'' \<mapsto> ''k2''] ''OPENAI_API_KEY'' \<noteq> None
   \<and> map_sum id gemini_max_retry
        (GeminiGcpWrapper_init [''GCP_API_KEY'' \<mapsto> ''k1'', ''OPENAI_API_KEY'' \<mapsto> ''k2''] 100
           (Some ''gemini-1.5-pro'') (- 2)) = Inr 3
   \<and> map_sum id gpt_max_retry
        (Gpt4Wrapper_init [''GCP_API_KEY'' \<mapsto> ''k1'', ''OPENAI_API_KEY'' \<mapsto> ''k2''] ''gpt-4o'' 9) = Inr 5"
  using retry_budget_never_rejected
          [where environ = "[''GCP_API_KEY'' \<mapsto> ''k1'', ''OPENAI_API_KEY'' \<mapsto> ''k2'']"
             and t = 100 and model_name = "Some ''gemini-1.5-pro''" and max_retry = "- 2"
             and model = "''gpt-4o''" and e = TypeError and other_max_retry = 3]
        retry_budget_never_rejected
          [where environ = "[''GCP_API_KEY'' \<mapsto> ''k1'', ''OPENAI_API_KEY'' \<mapsto> ''k2'']"
             and t = 100 and model_name = "Some ''gemini-1.5-pro''" and max_retry = 9
             and model = "''gpt-4o''" and e = TypeError and other_max_retry = 3]
  by auto

section \<open>Properties of the error log\<close>

text \<open>
  Claim C9. In a run whose output directory has no \<^verbatim>\<open>error.json\<close> yet, the first call of
  the error logger creates the file with the one-element array holding that call's
  message, and any later calls leave the directory as the first call left it.
\<close>

theorem error_log_first_write_wins:
  "error_json d = None \<Longrightarrow>
   error_json (print_and_log_error m d) = Some [m] \<and>
   fold print_and_log_error later (print_and_log_error m d) = print_and_log_error m d"
proof -
  have keep: "fold print_and_log_error ms d' = d'" if "error_json d' \<noteq> None" for ms d'
    using that by (induction ms) (auto simp: print_and_log_error_def)
  assume "error_json d = None"
  then have first: "error_json (print_and_log_error m d) = Some [m]"
    by (simp add: print_and_log_error_def)
  with keep [of "print_and_log_error m d" later] show ?thesis by simp
qed

theorem error_log_first_write_wins_witness:
  "error_json \<lparr>error_json = None, log_json = None, pngs = []\<rparr> = None
   \<and> error_json (print_and_log_error ''Error taking step: timeout''
        \<lparr>error_json = None, log_json = None, pngs = []\<rparr>) = Some [''Error taking step: timeout'']
   \<and> fold print_and_log_error [''second'', ''third'']
        (print_and_log_error ''Error taking step: timeout'' \<lparr>error_json = None, log_json = None, pngs = []\<rparr>)
      = \<lparr>error_json = Some [''Error taking step: timeout''], log_json = None, pngs = []\<rparr>"
  using error_log_first_write_wins [of "\<lparr>error_json = None, log_json = None, pngs = []\<rparr>"
          "''Error taking step: timeout''" "[''second'', ''third'']"]
  by (simp add: print_and_log_error_def)

section \<open>Properties of observation capture\<close>

subsection \<open>The polling loop\<close>

lemma polls_append: "polls (xs @ ys) = polls xs + polls ys"
  by (simp add: polls_def)

lemma reconnects_append: "reconnects (xs @ ys) = reconnects xs + reconnects ys"
  by (simp add: reconnects_def)

lemma poll_loop_settles:
  "k < n \<Longrightarrow> \<forall>i<k. misses s (polled s + i) \<Longrightarrow>
   read_forest (extras_feed s (polled s + k)) = r \<Longrightarrow> r \<noteq> Inl KeyError \<Longrightarrow>
   \<exists>ev'. poll_loop n sd s ev = (r, s\<lparr>polled := polled s + k + 1\<rparr>, ev @ ev')
        \<and> polls ev' = k + 1 \<and> reconnects ev' = 0"
proof (induction n arbitrary: k s ev)
  case 0
  then show ?case by simp
next
  case (Suc n)
  show ?case
  proof (cases k)
    case 0
    with Suc.prems have "read_forest (extras_feed s (polled s)) = r" by simp
    with Suc.prems(4) have "poll_loop (Suc n) sd s ev = (r, s\<lparr>polled := polled s + 0 + 1\<rparr>, ev @ [Poll])"
      by (cases r) (simp_all add: Let_def)
    with 0 show ?thesis by (auto simp: polls_def reconnects_def)
  next
    case (Suc k')
    let ?s1 = "s\<lparr>polled := Suc (polled s)\<rparr>"
    from Suc Suc.prems have miss0: "read_forest (extras_feed s (polled s)) = Inl KeyError"
      by (auto simp: misses_def dest: spec[where x=0])
    have m: "\<forall>i<k'. misses ?s1 (polled ?s1 + i)"
    proof (intro allI impI)
      fix i assume "i < k'"
      then have "Suc i < k" using Suc by simp
      with Suc.prems(2) have "misses s (polled s + Suc i)" by blast
      then show "misses ?s1 (polled ?s1 + i)" by (simp add: misses_def)
    qed
    have r: "read_forest (extras_feed ?s1 (polled ?s1 + k')) = r"
      using Suc.prems(3) Suc by simp
    from Suc Suc.prems(1) have "k' < n" by simp
    from Suc.IH[OF this m r Suc.prems(4), of "ev @ [Poll] @ [Sleep sd]"]
    obtain ev' where ev': "poll_loop n sd ?s1 (ev @ [Poll] @ [Sleep sd]) = (r, ?s1\<lparr>polled := polled ?s1 + k' + 1\<rparr>, (ev @ [Poll] @ [Sleep sd]) @ ev')"
      "polls ev' = k' + 1" "reconnects ev' = 0" by blast
    have "poll_loop (Suc n) sd s ev = (r, s\<lparr>polled := polled s + k + 1\<rparr>, ev @ ([Poll, Sleep sd] @ ev'))"
      using miss0 ev'(1) Suc by (simp add: Let_def)
    moreover have "polls ([Poll, Sleep sd] @ ev') = k + 1" "reconnects ([Poll, Sleep sd] @ ev') = 0"
      using ev'(2,3) Suc by (simp_all add: polls_def reconnects_def)
    ultimately show ?thesis by blast
  qed
qed

lemma poll_loop_exhausts:
  "\<forall>i<n. misses s (polled s + i) \<Longrightarrow>
   \<exists>ev'. poll_loop n sd s ev = (Inl RuntimeError, s\<lparr>polled := polled s + n\<rparr>, ev @ ev')
        \<and> polls ev' = n \<and> reconnects ev' = 0"
proof (induction n arbitrary: s ev)
  case 0
  then show ?case by (simp add: polls_def reconnects_def)
next
  case (Suc n)
  let ?s1 = "s\<lparr>polled := Suc (polled s)\<rparr>"
  from Suc.prems have miss0: "read_forest (extras_feed s (polled s)) = Inl KeyError"
    by (auto simp: misses_def dest: spec[where x=0])
  have m: "\<forall>i<n. misses ?s1 (polled ?s1 + i)"
  proof (intro allI impI)
    fix i assume "i < n"
    then have "Suc i < Suc n" by simp
    with Suc.prems have "misses s (polled s + Suc i)" by blast
    then show "misses ?s1 (polled ?s1 + i)" by (simp add: misses_def)
  qed
  from Suc.IH[OF m, of "ev @ [Poll] @ [Sleep sd]"]
  obtain ev' where ev': "poll_loop n sd ?s1 (ev @ [Poll] @ [Sleep sd]) = (Inl RuntimeError, ?s1\<lparr>polled := polled ?s1 + n\<rparr>, (ev @ [Poll] @ [Sleep sd]) @ ev')"
    "polls ev' = n" "reconnects ev' = 0" by blast
  have "poll_loop (Suc n) sd s ev = (Inl RuntimeError, s\<lparr>polled := polled s + Suc n\<rparr>, ev @ ([Poll, Sleep sd] @ ev'))"
    using miss0 ev'(1) by (simp add: Let_def)
  moreover have "polls ([Poll, Sleep sd] @ ev') = Suc n" "reconnects ([Poll, Sleep sd] @ ev') = 0"
    using ev'(2,3) by (simp_all add: polls_def reconnects_def)
  ultimately show ?case by blast
qed

lemma tree_settles:
  assumes "ready env" "k < 5" "\<forall>i<k. misses env (polled env + i)"
    "read_forest (extras_feed env (polled env + k)) = r" "r \<noteq> Inl KeyError"
  shows "\<exists>ev. get_a11y_tree env 5 1 = (r, env\<lparr>polled := polled env + k + 1\<rparr>, ev)
      \<and> polls ev = k + 1 \<and> reconnects ev = 0"
proof -
  from assms(1) obtain on where on: "has_wrapper (chain env)" "airplane_probe env = Inr on"
    by (auto simp: ready_def split: sum.splits)
  let ?ev0 = "if on then [EnableNetworking, Sleep 1] else []"
  from poll_loop_settles[OF _ assms(3,4,5), of 5 1 ?ev0] assms(2)
  obtain ev' where "poll_loop 5 1 env ?ev0 = (r, env\<lparr>polled := polled env + k + 1\<rparr>, ?ev0 @ ev')"
     "polls ev' = k + 1" "reconnects ev' = 0" by auto
  then show ?thesis using on
    by (auto simp: get_a11y_tree_def polls_def reconnects_def)
qed

lemma tree_exhausts:
  assumes "ready env" "\<forall>i<5. misses env (polled env + i)"
  shows "\<exists>ev. get_a11y_tree env 5 1 = (Inl RuntimeError, env\<lparr>polled := polled env + 5\<rparr>, ev)
      \<and> polls ev = 5 \<and> reconnects ev = 0"
proof -
  from assms(1) obtain on where on: "has_wrapper (chain env)" "airplane_probe env = Inr on"
    by (auto simp: ready_def split: sum.splits)
  let ?ev0 = "if on then [EnableNetworking, Sleep 1] else []"
  from poll_loop_exhausts[OF assms(2), of 1 ?ev0]
  obtain ev' where "poll_loop 5 1 env ?ev0 = (Inl RuntimeError, env\<lparr>polled := polled env + 5\<rparr>, ?ev0 @ ev')"
     "polls ev' = 5" "reconnects ev' = 0" by auto
  then show ?thesis using on
    by (auto simp: get_a11y_tree_def polls_def reconnects_def)
qed

lemma poll_loop_no_reconnect:
  "poll_loop n sd s ev = (r, s', ev') \<Longrightarrow> reconnects ev' = reconnects ev"
  by (induction n arbitrary: s ev)
     (auto simp: Let_def reconnects_def split: sum.splits if_splits)

lemma tree_no_reconnect:
  "get_a11y_tree env n sd = (r, s', ev) \<Longrightarrow> reconnects ev = 0"
  by (auto simp: get_a11y_tree_def reconnects_def split: if_splits sum.splits
           dest!: poll_loop_no_reconnect)


subsection \<open>Capture\<close>

text \<open>
  Claim C5. On a session that reaches the polling loop: if the polls before the \<open>j\<close>-th
  find no snapshot and the \<open>j\<close>-th yields one, \<open>j \<le> 5\<close>, then \<^verbatim>\<open>get_a11y_forest\<close> returns
  that snapshot after exactly \<open>j\<close> polls and no reconnect; if all 5 polls find no
  snapshot, it reconnects exactly once and runs the whole of \<^verbatim>\<open>get_a11y_tree\<close> again on
  the new session; and if the 5 polls on the new session also find no snapshot, the
  RuntimeError reaches the caller, after 10 polls and one reconnect.
\<close>

theorem capture_polls_then_reconnects_once:
  "(ready env \<and> 1 \<le> j \<and> j \<le> 5 \<and> (\<forall>i<j - 1. misses env (polled env + i)) \<and>
      read_forest (extras_feed env (polled env + (j - 1))) = Inr f
    \<longrightarrow> (\<exists>env' ev. get_a11y_forest fresh env = (Inr f, env', ev) \<and> polls ev = j \<and> reconnects ev = 0))
   \<and> (ready env \<and> (\<forall>i<5. misses env (polled env + i)) \<and> fresh = Inr env2
    \<longrightarrow> (\<exists>ev1. polls ev1 = 5 \<and> reconnects ev1 = 0 \<and>
          get_a11y_forest fresh env =
            (case get_a11y_tree env2 5 1 of (r, env3, ev2) \<Rightarrow> (r, env3, ev1 @ [Reconnect] @ ev2))) \<and>
        reconnects (snd (snd (get_a11y_forest fresh env))) = 1)
   \<and> (ready env \<and> (\<forall>i<5. misses env (polled env + i)) \<and> fresh = Inr env2 \<and>
      ready env2 \<and> (\<forall>i<5. misses env2 (polled env2 + i))
    \<longrightarrow> (\<exists>env' ev. get_a11y_forest fresh env = (Inl RuntimeError, env', ev) \<and>
          polls ev = 10 \<and> reconnects ev = 1))"
proof (intro conjI impI)
  assume a: "ready env \<and> 1 \<le> j \<and> j \<le> 5 \<and> (\<forall>i<j - 1. misses env (polled env + i)) \<and>
      read_forest (extras_feed env (polled env + (j - 1))) = Inr f"
  then have "1 \<le> j" "j \<le> 5" by simp_all
  then have "j - 1 < 5" by arith
  from tree_settles[OF _ this, of env "Inr f"] a
  obtain ev where "get_a11y_tree env 5 1 = (Inr f, env\<lparr>polled := polled env + (j - 1) + 1\<rparr>, ev)"
    "polls ev = j - 1 + 1" "reconnects ev = 0" by auto
  with a show "\<exists>env' ev. get_a11y_forest fresh env = (Inr f, env', ev) \<and> polls ev = j \<and> reconnects ev = 0"
    by (simp add: get_a11y_forest_def)
next
  assume a: "ready env \<and> (\<forall>i<5. misses env (polled env + i)) \<and> fresh = Inr env2"
  from tree_exhausts[of env] a
  obtain ev1 where ev1: "get_a11y_tree env 5 1 = (Inl RuntimeError, env\<lparr>polled := polled env + 5\<rparr>, ev1)"
    "polls ev1 = 5" "reconnects ev1 = 0" by auto
  obtain r env3 ev2 where t2: "get_a11y_tree env2 5 1 = (r, env3, ev2)"
    by (cases "get_a11y_tree env2 5 1") auto
  have eq: "get_a11y_forest fresh env = (r, env3, ev1 @ [Reconnect] @ ev2)"
    using ev1(1) t2 a by (simp add: get_a11y_forest_def)
  show "\<exists>ev1. polls ev1 = 5 \<and> reconnects ev1 = 0 \<and>
          get_a11y_forest fresh env =
            (case get_a11y_tree env2 5 1 of (r, env3, ev2) \<Rightarrow> (r, env3, ev1 @ [Reconnect] @ ev2))"
    using ev1(2,3) eq t2 by auto
  show "reconnects (snd (snd (get_a11y_forest fresh env))) = 1"
    using eq ev1(3) tree_no_reconnect[OF t2] by (simp add: reconnects_append) (simp add: reconnects_def)
next
  assume a: "ready env \<and> (\<forall>i<5. misses env (polled env + i)) \<and> fresh = Inr env2 \<and>
      ready env2 \<and> (\<forall>i<5. misses env2 (polled env2 + i))"
  from tree_exhausts[of env] a
  obtain ev1 where ev1: "get_a11y_tree env 5 1 = (Inl RuntimeError, env\<lparr>polled := polled env + 5\<rparr>, ev1)"
    "polls ev1 = 5" "reconnects ev1 = 0" by auto
  from tree_exhausts[of env2] a
  obtain ev2 where ev2: "get_a11y_tree env2 5 1 = (Inl RuntimeError, env2\<lparr>polled := polled env2 + 5\<rparr>, ev2)"
    "polls ev2 = 5" "reconnects ev2 = 0" by auto
  have eq: "get_a11y_forest fresh env = (Inl RuntimeError, env2\<lparr>polled := polled env2 + 5\<rparr>, ev1 @ [Reconnect] @ ev2)"
    using ev1(1) ev2(1) a by (simp add: get_a11y_forest_def)
  have "polls (ev1 @ [Reconnect] @ ev2) = 10" "reconnects (ev1 @ [Reconnect] @ ev2) = 1"
    using ev1(2,3) ev2(2,3) by (simp_all add: polls_append reconnects_append) (simp_all add: polls_def reconnects_def)
  with eq show "\<exists>env' ev. get_a11y_forest fresh env = (Inl RuntimeError, env', ev) \<and>
          polls ev = 10 \<and> reconnects ev = 1" by blast
qed

theorem capture_polls_then_reconnects_once_witness:
  "fst (get_a11y_forest (Inr stalled_session) (snapshot_at 2)) = Inr (Forest 2)
   \<and> polls (snd (snd (get_a11y_forest (Inr stalled_session) (snapshot_at 2)))) = 3
   \<and> reconnects (snd (snd (get_a11y_forest (Inr stalled_session) (snapshot_at 2)))) = 0
   \<and> reconnects (snd (snd (get_a11y_forest (Inr (snapshot_at 0)) stalled_session))) = 1
   \<and> fst (get_a11y_forest (Inr stalled_session) stalled_session) = Inl RuntimeError
   \<and> polls (snd (snd (get_a11y_forest (Inr stalled_session) stalled_session))) = 10
   \<and> reconnects (snd (snd (get_a11y_forest (Inr stalled_session) stalled_session))) = 1"
proof -
  have r1: "ready (snapshot_at 2)" and r2: "ready stalled_session"
    by (simp_all add: ready_def snapshot_at_def stalled_session_def session_with_def)
  have m1: "\<forall>i<3 - 1. misses (snapshot_at 2) (polled (snapshot_at 2) + i)"
    by (simp add: misses_def snapshot_at_def session_with_def read_forest_def)
  have f1: "read_forest (extras_feed (snapshot_at 2) (polled (snapshot_at 2) + (3 - 1))) = Inr (Forest 2)"
    by (simp add: snapshot_at_def session_with_def read_forest_def)
  have m2: "\<forall>i<5. misses stalled_session (polled stalled_session + i)"
    by (simp add: misses_def stalled_session_def session_with_def read_forest_def)
  from capture_polls_then_reconnects_once [of "snapshot_at 2" 3 "Forest 2" "Inr stalled_session" stalled_session]
    r1 m1 f1
  have a: "fst (get_a11y_forest (Inr stalled_session) (snapshot_at 2)) = Inr (Forest 2)
     \<and> polls (snd (snd (get_a11y_forest (Inr stalled_session) (snapshot_at 2)))) = 3
     \<and> reconnects (snd (snd (get_a11y_forest (Inr stalled_session) (snapshot_at 2)))) = 0"
    by auto
  from capture_polls_then_reconnects_once [of stalled_session 1 "Forest 2" "Inr (snapshot_at 0)" "snapshot_at 0"]
    r2 m2
  have b: "reconnects (snd (snd (get_a11y_forest (Inr (snapshot_at 0)) stalled_session))) = 1"
    by auto
  from capture_polls_then_reconnects_once [of stalled_session 1 "Forest 2" "Inr stalled_session" stalled_session]
    r2 m2
  have c: "fst (get_a11y_forest (Inr stalled_session) stalled_session) = Inl RuntimeError
     \<and> polls (snd (snd (get_a11y_forest (Inr stalled_session) stalled_session))) = 10
     \<and> reconnects (snd (snd (get_a11y_forest (Inr stalled_session) stalled_session))) = 1"
    by auto
  from a b c show ?thesis by simp
qed

text \<open>
  Claim C10, as stated, fails: a poll that raises RuntimeError is an exception during
  polling other than KeyError, and it is followed by a reconnect and does not reach the
  caller.
\<close>

theorem poll_runtime_error_reconnects:
  "get_a11y_forest (Inr (snapshot_at 0)) failing_poll_session
     = (Inr (Forest 2), (snapshot_at 0)\<lparr>polled := 1\<rparr>, [Poll, Reconnect, Poll])"
  by (simp add: get_a11y_forest_def get_a11y_tree_def failing_poll_session_def snapshot_at_def
        session_with_def read_forest_def Let_def eval_nat_numeral)

text \<open>
  Claim C10, amended. The reconnect happens exactly when the first \<^verbatim>\<open>get_a11y_tree\<close> raises
  a RuntimeError, whatever raised it: the one raised after all polls failed with
  KeyError, or one raised by a poll itself. An exception during polling that is neither
  KeyError nor RuntimeError, such as the IndexError for an empty \<^verbatim>\<open>'accessibility_tree'\<close>
  list, is not retried by the polling loop, is not followed by a reconnect, and reaches
  the caller at once.
\<close>

theorem reconnect_only_on_runtime_error:
  "reconnects (snd (snd (get_a11y_forest fresh env)))
     = (if fst (get_a11y_tree env 5 1) = Inl RuntimeError then 1 else 0)
   \<and> (ready env \<and> k < 5 \<and> (\<forall>i<k. misses env (polled env + i)) \<and>
      read_forest (extras_feed env (polled env + k)) = Inl e \<and> e \<noteq> KeyError \<and> e \<noteq> RuntimeError
    \<longrightarrow> (\<exists>env' ev. get_a11y_forest fresh env = (Inl e, env', ev) \<and> polls ev = k + 1 \<and> reconnects ev = 0))
   \<and> (ready env \<and> k < 5 \<and> (\<forall>i<k. misses env (polled env + i)) \<and>
      read_forest (extras_feed env (polled env + k)) = Inl RuntimeError
    \<longrightarrow> reconnects (snd (snd (get_a11y_forest fresh env))) = 1)"
proof (intro conjI impI)
  obtain r env1 ev where t1: "get_a11y_tree env 5 1 = (r, env1, ev)"
    by (cases "get_a11y_tree env 5 1") auto
  have ev0: "reconnects ev = 0" by (rule tree_no_reconnect [OF t1])
  show "reconnects (snd (snd (get_a11y_forest fresh env)))
     = (if fst (get_a11y_tree env 5 1) = Inl RuntimeError then 1 else 0)"
  proof (cases r)
    case (Inr f)
    with t1 ev0 show ?thesis by (simp add: get_a11y_forest_def)
  next
    case (Inl e)
    show ?thesis
    proof (cases "e = RuntimeError")
      case False
      with Inl t1 ev0 show ?thesis by (simp add: get_a11y_forest_def)
    next
      case True
      show ?thesis
      proof (cases fresh)
        case (Inl e2)
        with True \<open>r = Inl e\<close> t1 ev0 show ?thesis
          by (simp add: get_a11y_forest_def reconnects_append) (simp add: reconnects_def)
      next
        case (Inr env2)
        obtain r2 env3 ev2 where t2: "get_a11y_tree env2 5 1 = (r2, env3, ev2)"
          by (cases "get_a11y_tree env2 5 1") auto
        from tree_no_reconnect [OF t2] Inr True \<open>r = Inl e\<close> t1 t2 ev0 show ?thesis
          by (simp add: get_a11y_forest_def reconnects_append) (simp add: reconnects_def)
      qed
    qed
  qed
next
  assume a: "ready env \<and> k < 5 \<and> (\<forall>i<k. misses env (polled env + i)) \<and>
      read_forest (extras_feed env (polled env + k)) = Inl e \<and> e \<noteq> KeyError \<and> e \<noteq> RuntimeError"
  from tree_settles [of env k "Inl e"] a
  obtain ev where "get_a11y_tree env 5 1 = (Inl e, env\<lparr>polled := polled env + k + 1\<rparr>, ev)"
    "polls ev = k + 1" "reconnects ev = 0" by auto
  with a show "\<exists>env' ev. get_a11y_forest fresh env = (Inl e, env', ev) \<and> polls ev = k + 1 \<and> reconnects ev = 0"
    by (simp add: get_a11y_forest_def)
next
  assume a: "ready env \<and> k < 5 \<and> (\<forall>i<k. misses env (polled env + i)) \<and>
      read_forest (extras_feed env (polled env + k)) = Inl RuntimeError"
  from tree_settles [of env k "Inl RuntimeError"] a
  obtain ev where t1: "get_a11y_tree env 5 1 = (Inl RuntimeError, env\<lparr>polled := polled env + k + 1\<rparr>, ev)"
    "polls ev = k + 1" "reconnects ev = 0" by auto
  show "reconnects (snd (snd (get_a11y_forest fresh env))) = 1"
  proof (cases fresh)
    case (Inl e2)
    with t1 show ?thesis
      by (simp add: get_a11y_forest_def reconnects_append) (simp add: reconnects_def)
  next
    case (Inr env2)
    obtain r2 env3 ev2 where t2: "get_a11y_tree env2 5 1 = (r2, env3, ev2)"
      by (cases "get_a11y_tree env2 5 1") auto
    from tree_no_reconnect [OF t2] Inr t1 t2 show ?thesis
      by (simp add: get_a11y_forest_def reconnects_append) (simp add: reconnects_def)
  qed
qed

theorem reconnect_only_on_runtime_error_witness:
  "fst (get_a11y_forest (Inr (snapshot_at 0)) empty_list_session) = Inl IndexError
   \<and> polls (snd (snd (get_a11y_forest (Inr (snapshot_at 0)) empty_list_session))) = 1
   \<and> reconnects (snd (snd (get_a11y_forest (Inr (snapshot_at 0)) empty_list_session))) = 0
   \<and> reconnects (snd (snd (get_a11y_forest (Inr (snapshot_at 0)) failing_poll_session))) = 1"
proof -
  have r1: "ready empty_list_session" and r2: "ready failing_poll_session"
    by (simp_all add: ready_def empty_list_session_def failing_poll_session_def session_with_def)
  have f1: "read_forest (extras_feed empty_list_session (polled empty_list_session + 0)) = Inl IndexError"
    by (simp add: empty_list_session_def session_with_def read_forest_def)
  have f2: "read_forest (extras_feed failing_poll_session (polled failing_poll_session + 0)) = Inl RuntimeError"
    by (simp add: failing_poll_session_def session_with_def read_forest_def)
  from reconnect_only_on_runtime_error [of "Inr (snapshot_at 0)" empty_list_session 0 IndexError] r1 f1
  have a: "fst (get_a11y_forest (Inr (snapshot_at 0)) empty_list_session) = Inl IndexError
     \<and> polls (snd (snd (get_a11y_forest (Inr (snapshot_at 0)) empty_list_session))) = 1
     \<and> reconnects (snd (snd (get_a11y_forest (Inr (snapshot_at 0)) empty_list_session))) = 0"
    by auto
  from reconnect_only_on_runtime_error [of "Inr (snapshot_at 0)" failing_poll_session 0 RuntimeError] r2 f2
  have b: "reconnects (snd (snd (get_a11y_forest (Inr (snapshot_at 0)) failing_poll_session))) = 1"
    by auto
  from a b show ?thesis by simp
qed

section \<open>Properties of the inference gateway\<close>

subsection \<open>Pacing of variant A\<close>







subsection \<open>Retries of variant B\<close>

text \<open>
  A failure that does not go through the handler leaves \<open>counter\<close> as it is: on a backend
  all of whose answers are such failures, the loop returns only if it never starts.
\<close>

lemma gpt_loop_uncounted_never_returns:
  assumes "gpt_loop b c w tr = Some y"
  shows "(\<forall>k. try_post (b k) = Failed_uncounted) \<longrightarrow> c \<le> 0"
  using assms
proof (rule gpt_loop.raw_induct [where P = "\<lambda>b c w tr y. (\<forall>k. try_post (b k) = Failed_uncounted) \<longrightarrow> c \<le> 0", rotated])
  fix f :: "backend \<Rightarrow> int \<Rightarrow> int \<Rightarrow> gpt_trace \<Rightarrow> ((string \<times> http_response option) \<times> gpt_trace) option"
    and b :: backend and c w :: int and tr :: gpt_trace
    and y :: "(string \<times> http_response option) \<times> gpt_trace"
  assume IH: "\<And>b c w tr y. f b c w tr = Some y \<Longrightarrow> (\<forall>k. try_post (b k) = Failed_uncounted) \<longrightarrow> c \<le> 0"
    and eq: "(if 0 < c
      then let tr1 = tr\<lparr>calls := Suc (calls tr)\<rparr>
           in case try_post (b (calls tr)) of
              Return t response \<Rightarrow> Some ((t, Some response), tr1)
              | Failed_counted \<Rightarrow> f b (c - 1) (w * 2) (tr1\<lparr>sleeps := sleeps tr1 @ [w]\<rparr>)
              | Failed_uncounted \<Rightarrow> f b c (w * 2) (tr1\<lparr>sleeps := sleeps tr1 @ [w]\<rparr>)
      else Some ((ERROR_CALLING_LLM, None), tr)) = Some y"
  show "(\<forall>k. try_post (b k) = Failed_uncounted) \<longrightarrow> c \<le> 0"
  proof (intro impI)
    assume a: "\<forall>k. try_post (b k) = Failed_uncounted"
    show "c \<le> 0"
    proof (rule ccontr)
      assume "\<not> c \<le> 0"
      with eq a have "f b c (w * 2) (tr\<lparr>calls := Suc (calls tr), sleeps := sleeps tr @ [w]\<rparr>) = Some y"
        by (simp add: Let_def)
      from IH [OF this] a \<open>\<not> c \<le> 0\<close> show False by simp
    qed
  qed
qed

lemma gpt_loop_all_counted:
  "\<forall>k. try_post (b k) = Failed_counted \<Longrightarrow>
   gpt_loop b (int n) w tr =
     Some ((ERROR_CALLING_LLM, None),
           \<lparr>calls = calls tr + n, sleeps = sleeps tr @ map (\<lambda>i. w * 2 ^ i) [0..<n]\<rparr>)"
proof (induction n arbitrary: w tr)
  case 0
  then show ?case by (simp add: gpt_loop.simps)
next
  case (Suc n)
  have shift: "map (\<lambda>i. w * 2 ^ i) [0..<Suc n] = w # map (\<lambda>i. (w * 2) * 2 ^ i) [0..<n]"
    by (simp add: upt_rec [of 0 "Suc n"] map_Suc_upt [symmetric] del: upt_Suc)
  have "gpt_loop b (int (Suc n)) w tr =
        gpt_loop b (int n) (w * 2) (tr\<lparr>calls := Suc (calls tr), sleeps := sleeps tr @ [w]\<rparr>)"
    using Suc.prems by (subst gpt_loop.simps) (simp add: Let_def)
  also have "\<dots> = Some ((ERROR_CALLING_LLM, None),
           \<lparr>calls = calls tr + Suc n, sleeps = sleeps tr @ map (\<lambda>i. w * 2 ^ i) [0..<Suc n]\<rparr>)"
    using Suc.IH [OF Suc.prems] by (simp add: shift del: upt_Suc)
  finally show ?case .
qed

lemma raising_backend_exhausts_budget:
  assumes "\<forall>k. try_post (b k) = Failed_counted" and "0 \<le> gpt_max_retry self"
  shows "gpt_predict_mm self b =
     Some ((ERROR_CALLING_LLM, None),
           \<lparr>calls = nat (gpt_max_retry self),
            sleeps = map (\<lambda>i. RETRY_WAITING_SECONDS * 2 ^ i) [0..<nat (gpt_max_retry self)]\<rparr>)"
  using gpt_loop_all_counted [OF assms(1), of "nat (gpt_max_retry self)" RETRY_WAITING_SECONDS
          "\<lparr>calls = 0, sleeps = []\<rparr>"] assms(2)
  by (simp add: gpt_predict_mm_def)

lemma unreachable_backend_three_calls:
  "gpt_predict_mm \<lparr>openai_api_key = ''sk'', gpt_max_retry = 3, gpt_model = ''gpt-4o''\<rparr> unreachable
     = Some ((ERROR_CALLING_LLM, None), \<lparr>calls = 3, sleeps = [20, 40, 80]\<rparr>)"
  using gpt_loop_all_counted [of unreachable 3 RETRY_WAITING_SECONDS "\<lparr>calls = 0, sleeps = []\<rparr>"]
  by (simp add: gpt_predict_mm_def unreachable_def try_post_def RETRY_WAITING_SECONDS_def
        eval_nat_numeral)

text \<open>
  Claim C2, at a backend that answers every call with a non-2xx response carrying an
  error message, and a gateway with retry budget 3: \<^verbatim>\<open>predict_mm\<close> does not stop after three
  calls with the sentinel, it never returns.
\<close>

theorem rate_limited_backend_never_returns:
  "gpt_predict_mm \<lparr>openai_api_key = ''sk'', gpt_max_retry = 3, gpt_model = ''gpt-4o''\<rparr> rate_limited
     = None"
proof (cases "gpt_predict_mm \<lparr>openai_api_key = ''sk'', gpt_max_retry = 3, gpt_model = ''gpt-4o''\<rparr> rate_limited")
  case None
  then show ?thesis .
next
  case (Some y)
  then have "gpt_loop rate_limited 3 RETRY_WAITING_SECONDS \<lparr>calls = 0, sleeps = []\<rparr> = Some y"
    by (simp add: gpt_predict_mm_def)
  from gpt_loop_uncounted_never_returns [OF this] have "(3::int) \<le> 0"
    by (simp add: rate_limited_def try_post_def)
  then show ?thesis by simp
qed

section \<open>Properties of the episode driver\<close>

subsection \<open>Action normalization\<close>

lemma unknown_action_type:
  assumes "action_type a \<notin> JStr ` set action_types"
  shows "by_action_type str d a = string_detail ''wait'' ''No action has been taken.''"
proof -
  have ne: "action_type a \<noteq> JStr t" if "t \<in> set action_types" for t
    using assms that by blast
  have "action_type a \<noteq> JStr ''click''" "action_type a \<noteq> JStr ''double_tap''"
    "action_type a \<noteq> JStr ''input_text''" "action_type a \<noteq> JStr ''keyboard_enter''"
    "action_type a \<noteq> JStr ''long_press''" "action_type a \<noteq> JStr ''navigate_back''"
    "action_type a \<noteq> JStr ''navigate_home''" "action_type a \<noteq> JStr ''open_app''"
    "action_type a \<noteq> JStr ''scroll''" "action_type a \<noteq> JStr ''status''"
    "action_type a \<noteq> JStr ''swipe''"
    by (rule ne, simp add: action_types_def)+
  then show ?thesis
    unfolding by_action_type_def by (simp only: if_False)
qed

lemma pointer_action_type:
  assumes "action_type a = JStr tag" and "tag \<in> {''click'', ''double_tap'', ''long_press''}"
  shows "by_action_type str d a = coordinates_detail tag d"
proof -
  from assms(2) consider "tag = ''click''" | "tag = ''double_tap''" | "tag = ''long_press''"
    by blast
  then show ?thesis
  proof cases
    case 1
    with assms(1) show ?thesis unfolding by_action_type_def by simp
  next
    case 2
    with assms(1) show ?thesis unfolding by_action_type_def by simp
  next
    case 3
    with assms(1) show ?thesis unfolding by_action_type_def by simp
  qed
qed

lemma input_text_action_type:
  "action_type a = JStr ''input_text'' \<Longrightarrow>
   by_action_type str d a =
     string_detail ''input_text''
       (''The text '' @ [CHR 0x22] @ str (text_field a) @ [CHR 0x22] @ '' has been inputted.'')"
  unfolding by_action_type_def by simp

lemma fixed_action_types:
  "action_type a = JStr ''keyboard_enter'' \<Longrightarrow>
     by_action_type str d a = string_detail ''keyboard_enter'' []"
  "action_type a = JStr ''navigate_back'' \<Longrightarrow>
     by_action_type str d a = string_detail ''navigate_back'' ''Back to the previous page.''"
  "action_type a = JStr ''navigate_home'' \<Longrightarrow>
     by_action_type str d a = string_detail ''navigate_home'' ''Return to home page.''"
  "action_type a = JStr ''status'' \<Longrightarrow>
     by_action_type str d a = string_detail ''status'' ''Task completed.''"
  "action_type a = JStr ''open_app'' \<Longrightarrow>
     by_action_type str d a =
       Inr \<lparr>logged_type = ''open_app'', detail_type = ''string'', detail = Plain (app_name a)\<rparr>"
  unfolding by_action_type_def by simp_all

lemma scroll_action_type:
  "action_type a = JStr ''scroll'' \<Longrightarrow> d ''actual_action_coordinates'' = Some v \<Longrightarrow>
   unpack4 v = Inr (x, y, p, q) \<Longrightarrow>
   by_action_type str d a =
     string_detail ''scroll''
       (''The coordinates ('' @ str x @ '','' @ str y @ '') have been swiped to the ''
          @ str (direction a) @ ''.'')"
  unfolding by_action_type_def by (simp add: lookup_def)

lemma swipe_action_type:
  "action_type a = JStr ''swipe'' \<Longrightarrow> d ''actual_action_coordinates'' = Some v \<Longrightarrow>
   unpack4 v = Inr (x, y, p, q) \<Longrightarrow>
   by_action_type str d a =
     string_detail ''swipe''
       (''The swipe action has been performed starting from coordinates (''
          @ str x @ '','' @ str y @ '') to ('' @ str p @ '','' @ str q @ '').'')"
  unfolding by_action_type_def by (simp add: lookup_def)

lemma normalize_action_object:
  "d key = Some (Action a) \<Longrightarrow> normalize_action str d key = by_action_type str d a"
  by (simp add: normalize_action_def lookup_def)

text \<open>
  Claim C4, at a grounded action that is a string: the type is \<open>wait\<close>, but the detail is
  the empty string, not the text for no action taken that the last branch of the chain
  writes for the type \<open>wait\<close>.
\<close>

theorem string_token_has_empty_detail:
  "normalize_action example_str (example_data (Plain (JStr ''error_retry''))) ''converted_action''
     = Inr \<lparr>logged_type = ''wait'', detail_type = ''string'', detail = Plain (JStr [])\<rparr>
   \<and> normalize_action example_str (example_data (Plain (JStr ''error_retry''))) ''converted_action''
     \<noteq> Inr \<lparr>logged_type = ''wait'', detail_type = ''string'',
            detail = Plain (JStr ''No action has been taken.'')\<rparr>"
  by (simp add: normalize_action_def lookup_def example_data_def string_detail_def)

text \<open>
  The table of the grounded action objects. Each tag of the enumeration has one shape of
  type and detail, read off where the coordinates entry is there for the tags that use
  it; an object with any other tag, or none, has the type \<open>wait\<close> and the text for no
  action taken.
\<close>

lemma normalization_table:
  "(d key = Some (Plain (JStr s)) \<longrightarrow>
      normalize_action str d key
        = Inr \<lparr>logged_type = ''wait'', detail_type = ''string'', detail = Plain (JStr [])\<rparr>)
   \<and> (d key = Some (Action a) \<and> action_type a \<notin> JStr ` set action_types \<longrightarrow>
      normalize_action str d key
        = Inr \<lparr>logged_type = ''wait'', detail_type = ''string'',
               detail = Plain (JStr ''No action has been taken.'')\<rparr>)
   \<and> (d key = Some (Action a) \<and> action_type a = JStr tag \<and>
      tag \<in> {''click'', ''double_tap'', ''long_press''} \<and>
      d ''actual_action_coordinates'' = Some v \<longrightarrow>
      normalize_action str d key
        = Inr \<lparr>logged_type = tag, detail_type = ''coordinates'', detail = v\<rparr>)
   \<and> (d key = Some (Action a) \<and> action_type a = JStr ''input_text'' \<longrightarrow>
      normalize_action str d key
        = Inr \<lparr>logged_type = ''input_text'', detail_type = ''string'',
               detail = Plain (JStr (''The text '' @ [CHR 0x22] @ str (text_field a) @ [CHR 0x22]
                                      @ '' has been inputted.''))\<rparr>)
   \<and> (d key = Some (Action a) \<and> action_type a = JStr ''keyboard_enter'' \<longrightarrow>
      normalize_action str d key
        = Inr \<lparr>logged_type = ''keyboard_enter'', detail_type = ''string'', detail = Plain (JStr [])\<rparr>)
   \<and> (d key = Some (Action a) \<and> action_type a = JStr ''navigate_back'' \<longrightarrow>
      normalize_action str d key
        = Inr \<lparr>logged_type = ''navigate_back'', detail_type = ''string'',
               detail = Plain (JStr ''Back to the previous page.'')\<rparr>)
   \<and> (d key = Some (Action a) \<and> action_type a = JStr ''navigate_home'' \<longrightarrow>
      normalize_action str d key
        = Inr \<lparr>logged_type = ''navigate_home'', detail_type = ''string'',
               detail = Plain (JStr ''Return to home page.'')\<rparr>)
   \<and> (d key = Some (Action a) \<and> action_type a = JStr ''open_app'' \<longrightarrow>
      normalize_action str d key
        = Inr \<lparr>logged_type = ''open_app'', detail_type = ''string'', detail = Plain (app_name a)\<rparr>)
   \<and> (d key = Some (Action a) \<and> action_type a = JStr ''scroll'' \<and>
      d ''actual_action_coordinates'' = Some v \<and> unpack4 v = Inr (x, y, p, q) \<longrightarrow>
      normalize_action str d key
        = Inr \<lparr>logged_type = ''scroll'', detail_type = ''string'',
               detail = Plain (JStr (''The coordinates ('' @ str x @ '','' @ str y
                                      @ '') have been swiped to the '' @ str (direction a) @ ''.''))\<rparr>)
   \<and> (d key = Some (Action a) \<and> action_type a = JStr ''status'' \<longrightarrow>
      normalize_action str d key
        = Inr \<lparr>logged_type = ''status'', detail_type = ''string'',
               detail = Plain (JStr ''Task completed.'')\<rparr>)
   \<and> (d key = Some (Action a) \<and> action_type a = JStr ''swipe'' \<and>
      d ''actual_action_coordinates'' = Some v \<and> unpack4 v = Inr (x, y, p, q) \<longrightarrow>
      normalize_action str d key
        = Inr \<lparr>logged_type = ''swipe'', detail_type = ''string'',
               detail = Plain (JStr (''The swipe action has been performed starting from coordinates (''
                                      @ str x @ '','' @ str y @ '') to ('' @ str p @ '','' @ str q
                                      @ '').''))\<rparr>)"
proof (intro conjI impI)
  assume "d key = Some (Plain (JStr s))"
  then show "normalize_action str d key
        = Inr \<lparr>logged_type = ''wait'', detail_type = ''string'', detail = Plain (JStr [])\<rparr>"
    by (simp add: normalize_action_def lookup_def string_detail_def)
next
  assume "d key = Some (Action a) \<and> action_type a \<notin> JStr ` set action_types"
  then show "normalize_action str d key
        = Inr \<lparr>logged_type = ''wait'', detail_type = ''string'',
               detail = Plain (JStr ''No action has been taken.'')\<rparr>"
    by (simp add: normalize_action_object unknown_action_type string_detail_def)
next
  assume "d key = Some (Action a) \<and> action_type a = JStr tag \<and>
      tag \<in> {''click'', ''double_tap'', ''long_press''} \<and>
      d ''actual_action_coordinates'' = Some v"
  then have "normalize_action str d key = coordinates_detail tag d"
    and "d ''actual_action_coordinates'' = Some v"
    by (simp_all add: normalize_action_object pointer_action_type)
  then show "normalize_action str d key
        = Inr \<lparr>logged_type = tag, detail_type = ''coordinates'', detail = v\<rparr>"
    by (simp add: coordinates_detail_def lookup_def)
next
  assume "d key = Some (Action a) \<and> action_type a = JStr ''input_text''"
  then show "normalize_action str d key
        = Inr \<lparr>logged_type = ''input_text'', detail_type = ''string'',
               detail = Plain (JStr (''The text '' @ [CHR 0x22] @ str (text_field a) @ [CHR 0x22]
                                      @ '' has been inputted.''))\<rparr>"
    by (simp add: normalize_action_object input_text_action_type string_detail_def)
next
  assume "d key = Some (Action a) \<and> action_type a = JStr ''keyboard_enter''"
  then show "normalize_action str d key
        = Inr \<lparr>logged_type = ''keyboard_enter'', detail_type = ''string'', detail = Plain (JStr [])\<rparr>"
    by (simp add: normalize_action_object fixed_action_types string_detail_def)
next
  assume "d key = Some (Action a) \<and> action_type a = JStr ''navigate_back''"
  then show "normalize_action str d key
        = Inr \<lparr>logged_type = ''navigate_back'', detail_type = ''string'',
               detail = Plain (JStr ''Back to the previous page.'')\<rparr>"
    by (simp add: normalize_action_object fixed_action_types string_detail_def)
next
  assume "d key = Some (Action a) \<and> action_type a = JStr ''navigate_home''"
  then show "normalize_action str d key
        = Inr \<lparr>logged_type = ''navigate_home'', detail_type = ''string'',
               detail = Plain (JStr ''Return to home page.'')\<rparr>"
    by (simp add: normalize_action_object fixed_action_types string_detail_def)
next
  assume "d key = Some (Action a) \<and> action_type a = JStr ''open_app''"
  then show "normalize_action str d key
        = Inr \<lparr>logged_type = ''open_app'', detail_type = ''string'', detail = Plain (app_name a)\<rparr>"
    by (simp add: normalize_action_object fixed_action_types)
next
  assume "d key = Some (Action a) \<and> action_type a = JStr ''scroll'' \<and>
      d ''actual_action_coordinates'' = Some v \<and> unpack4 v = Inr (x, y, p, q)"
  then show "normalize_action str d key
        = Inr \<lparr>logged_type = ''scroll'', detail_type = ''string'',
               detail = Plain (JStr (''The coordinates ('' @ str x @ '','' @ str y
                                      @ '') have been swiped to the '' @ str (direction a) @ ''.''))\<rparr>"
    by (simp add: normalize_action_object scroll_action_type string_detail_def)
next
  assume "d key = Some (Action a) \<and> action_type a = JStr ''status''"
  then show "normalize_action str d key
        = Inr \<lparr>logged_type = ''status'', detail_type = ''string'',
               detail = Plain (JStr ''Task completed.'')\<rparr>"
    by (simp add: normalize_action_object fixed_action_types string_detail_def)
next
  assume "d key = Some (Action a) \<and> action_type a = JStr ''swipe'' \<and>
      d ''actual_action_coordinates'' = Some v \<and> unpack4 v = Inr (x, y, p, q)"
  then show "normalize_action str d key
        = Inr \<lparr>logged_type = ''swipe'', detail_type = ''string'',
               detail = Plain (JStr (''The swipe action has been performed starting from coordinates (''
                                      @ str x @ '','' @ str y @ '') to ('' @ str p @ '','' @ str q
                                      @ '').''))\<rparr>"
    by (simp add: normalize_action_object swipe_action_type string_detail_def)
qed

lemma normalization_table_examples:
  "normalize_action example_str (example_data (Plain (JStr ''error_retry''))) ''converted_action''
       = Inr \<lparr>logged_type = ''wait'', detail_type = ''string'', detail = Plain (JStr [])\<rparr>
   \<and> normalize_action example_str (example_data (Action (example_action ''answer''))) ''converted_action''
       = Inr \<lparr>logged_type = ''wait'', detail_type = ''string'', detail = Plain (JStr ''No action has been taken.'')\<rparr>
   \<and> normalize_action example_str (example_data (Action (example_action ''click''))) ''converted_action''
       = Inr \<lparr>logged_type = ''click'', detail_type = ''coordinates'', detail = Plain (JList [JInt 540, JInt 1200, JInt 540, JInt 600])\<rparr>
   \<and> normalize_action example_str (example_data (Action (example_action ''double_tap''))) ''converted_action''
       = Inr \<lparr>logged_type = ''double_tap'', detail_type = ''coordinates'', detail = Plain (JList [JInt 540, JInt 1200, JInt 540, JInt 600])\<rparr>
   \<and> normalize_action example_str (example_data (Action (example_action ''input_text''))) ''converted_action''
       = Inr \<lparr>logged_type = ''input_text'', detail_type = ''string'', detail = Plain (JStr (''The text '' @ [CHR 0x22] @ ''hello'' @ [CHR 0x22] @ '' has been inputted.''))\<rparr>
   \<and> normalize_action example_str (example_data (Action (example_action ''keyboard_enter''))) ''converted_action''
       = Inr \<lparr>logged_type = ''keyboard_enter'', detail_type = ''string'', detail = Plain (JStr [])\<rparr>
   \<and> normalize_action example_str (example_data (Action (example_action ''long_press''))) ''converted_action''
       = Inr \<lparr>logged_type = ''long_press'', detail_type = ''coordinates'', detail = Plain (JList [JInt 540, JInt 1200, JInt 540, JInt 600])\<rparr>
   \<and> normalize_action example_str (example_data (Action (example_action ''navigate_back''))) ''converted_action''
       = Inr \<lparr>logged_type = ''navigate_back'', detail_type = ''string'', detail = Plain (JStr ''Back to the previous page.'')\<rparr>
   \<and> normalize_action example_str (example_data (Action (example_action ''navigate_home''))) ''converted_action''
       = Inr \<lparr>logged_type = ''navigate_home'', detail_type = ''string'', detail = Plain (JStr ''Return to home page.'')\<rparr>
   \<and> normalize_action example_str (example_data (Action (example_action ''open_app''))) ''converted_action''
       = Inr \<lparr>logged_type = ''open_app'', detail_type = ''string'', detail = Plain (JStr ''Clock'')\<rparr>
   \<and> normalize_action example_str (example_data (Action (example_action ''scroll''))) ''converted_action''
       = Inr \<lparr>logged_type = ''scroll'', detail_type = ''string'', detail = Plain (JStr ''The coordinates (540,1200) have been swiped to the down.'')\<rparr>
   \<and> normalize_action example_str (example_data (Action (example_action ''status''))) ''converted_action''
       = Inr \<lparr>logged_type = ''status'', detail_type = ''string'', detail = Plain (JStr ''Task completed.'')\<rparr>
   \<and> normalize_action example_str (example_data (Action (example_action ''swipe''))) ''converted_action''
       = Inr \<lparr>logged_type = ''swipe'', detail_type = ''string'', detail = Plain (JStr ''The swipe action has been performed starting from coordinates (540,1200) to (540,600).'')\<rparr>"
proof -
  from normalization_table [where d = "example_data (Plain (JStr ''error_retry''))" and key = "''converted_action''"
        and s = "''error_retry''" and a = "example_action ''click''" and tag = "''click''"
        and v = "Plain (JList [JInt 540, JInt 1200, JInt 540, JInt 600])" and str = example_str
        and x = "JInt 540" and y = "JInt 1200" and p = "JInt 540" and q = "JInt 600", THEN conjunct1]
  have w0: "normalize_action example_str (example_data (Plain (JStr ''error_retry''))) ''converted_action''
      = Inr \<lparr>logged_type = ''wait'', detail_type = ''string'', detail = Plain (JStr [])\<rparr>"
    by (simp add: example_data_def example_action_def action_types_def unpack4_def example_str_def)
  from normalization_table [where d = "example_data (Action (example_action ''answer''))" and key = "''converted_action''"
        and s = "''error_retry''" and a = "example_action ''answer''" and tag = "''answer''"
        and v = "Plain (JList [JInt 540, JInt 1200, JInt 540, JInt 600])" and str = example_str
        and x = "JInt 540" and y = "JInt 1200" and p = "JInt 540" and q = "JInt 600", THEN conjunct2, THEN conjunct1]
  have w1: "normalize_action example_str (example_data (Action (example_action ''answer''))) ''converted_action''
      = Inr \<lparr>logged_type = ''wait'', detail_type = ''string'', detail = Plain (JStr ''No action has been taken.'')\<rparr>"
    by (simp add: example_data_def example_action_def action_types_def unpack4_def example_str_def)
  from normalization_table [where d = "example_data (Action (example_action ''click''))" and key = "''converted_action''"
        and s = "''error_retry''" and a = "example_action ''click''" and tag = "''click''"
        and v = "Plain (JList [JInt 540, JInt 1200, JInt 540, JInt 600])" and str = example_str
        and x = "JInt 540" and y = "JInt 1200" and p = "JInt 540" and q = "JInt 600", THEN conjunct2, THEN conjunct2, THEN conjunct1]
  have w2: "normalize_action example_str (example_data (Action (example_action ''click''))) ''converted_action''
      = Inr \<lparr>logged_type = ''click'', detail_type = ''coordinates'', detail = Plain (JList [JInt 540, JInt 1200, JInt 540, JInt 600])\<rparr>"
    by (simp add: example_data_def example_action_def action_types_def unpack4_def example_str_def)
  from normalization_table [where d = "example_data (Action (example_action ''double_tap''))" and key = "''converted_action''"
        and s = "''error_retry''" and a = "example_action ''double_tap''" and tag = "''double_tap''"
        and v = "Plain (JList [JInt 540, JInt 1200, JInt 540, JInt 600])" and str = example_str
        and x = "JInt 540" and y = "JInt 1200" and p = "JInt 540" and q = "JInt 600", THEN conjunct2, THEN conjunct2, THEN conjunct1]
  have w3: "normalize_action example_str (example_data (Action (example_action ''double_tap''))) ''converted_action''
      = Inr \<lparr>logged_type = ''double_tap'', detail_type = ''coordinates'', detail = Plain (JList [JInt 540, JInt 1200, JInt 540, JInt 600])\<rparr>"
    by (simp add: example_data_def example_action_def action_types_def unpack4_def example_str_def)
  from normalization_table [where d = "example_data (Action (example_action ''input_text''))" and key = "''converted_action''"
        and s = "''error_retry''" and a = "example_action ''input_text''" and tag = "''input_text''"
        and v = "Plain (JList [JInt 540, JInt 1200, JInt 540, JInt 600])" and str = example_str
        and x = "JInt 540" and y = "JInt 1200" and p = "JInt 540" and q = "JInt 600", THEN conjunct2, THEN conjunct2, THEN conjunct2, THEN conjunct1]
  have w4: "normalize_action example_str (example_data (Action (example_action ''input_text''))) ''converted_action''
      = Inr \<lparr>logged_type = ''input_text'', detail_type = ''string'', detail = Plain (JStr (''The text '' @ [CHR 0x22] @ ''hello'' @ [CHR 0x22] @ '' has been inputted.''))\<rparr>"
    by (simp add: example_data_def example_action_def action_types_def unpack4_def example_str_def)
  from normalization_table [where d = "example_data (Action (example_action ''keyboard_enter''))" and key = "''converted_action''"
        and s = "''error_retry''" and a = "example_action ''keyboard_enter''" and tag = "''keyboard_enter''"
        and v = "Plain (JList [JInt 540, JInt 1200, JInt 540, JInt 600])" and str = example_str
        and x = "JInt 540" and y = "JInt 1200" and p = "JInt 540" and q = "JInt 600", THEN conjunct2, THEN conjunct2, THEN conjunct2, THEN conjunct2, THEN conjunct1]
  have w5: "normalize_action example_str (example_data (Action (example_action ''keyboard_enter''))) ''converted_action''
      = Inr \<lparr>logged_type = ''keyboard_enter'', detail_type = ''string'', detail = Plain (JStr [])\<rparr>"
    by (simp add: example_data_def example_action_def action_types_def unpack4_def example_str_def)
  from normalization_table [where d = "example_data (Action (example_action ''long_press''))" and key = "''converted_action''"
        and s = "''error_retry''" and a = "example_action ''long_press''" and tag = "''long_press''"
        and v = "Plain (JList [JInt 540, JInt 1200, JInt 540, JInt 600])" and str = example_str
        and x = "JInt 540" and y = "JInt 1200" and p = "JInt 540" and q = "JInt 600", THEN conjunct2, THEN conjunct2, THEN conjunct1]
  have w6: "normalize_action example_str (example_data (Action (example_action ''long_press''))) ''converted_action''
      = Inr \<lparr>logged_type = ''long_press'', detail_type = ''coordinates'', detail = Plain (JList [JInt 540, JInt 1200, JInt 540, JInt 600])\<rparr>"
    by (simp add: example_data_def example_action_def action_types_def unpack4_def example_str_def)
  from normalization_table [where d = "example_data (Action (example_action ''navigate_back''))" and key = "''converted_action''"
        and s = "''error_retry''" and a = "example_action ''navigate_back''" and tag = "''navigate_back''"
        and v = "Plain (JList [JInt 540, JInt 1200, JInt 540, JInt 600])" and str = example_str
        and x = "JInt 540" and y = "JInt 1200" and p = "JInt 540" and q = "JInt 600", THEN conjunct2, THEN conjunct2, THEN conjunct2, THEN conjunct2, THEN conjunct2, THEN conjunct1]
  have w7: "normalize_action example_str (example_data (Action (example_action ''navigate_back''))) ''converted_action''
      = Inr \<lparr>logged_type = ''navigate_back'', detail_type = ''string'', detail = Plain (JStr ''Back to the previous page.'')\<rparr>"
    by (simp add: example_data_def example_action_def action_types_def unpack4_def example_str_def)
  from normalization_table [where d = "example_data (Action (example_action ''navigate_home''))" and key = "''converted_action''"
        and s = "''error_retry''" and a = "example_action ''navigate_home''" and tag = "''navigate_home''"
        and v = "Plain (JList [JInt 540, JInt 1200, JInt 540, JInt 600])" and str = example_str
        and x = "JInt 540" and y = "JInt 1200" and p = "JInt 540" and q = "JInt 600", THEN conjunct2, THEN conjunct2, THEN conjunct2, THEN conjunct2, THEN conjunct2, THEN conjunct2, THEN conjunct1]
  have w8: "normalize_action example_str (example_data (Action (example_action ''navigate_home''))) ''converted_action''
      = Inr \<lparr>logged_type = ''navigate_home'', detail_type = ''string'', detail = Plain (JStr ''Return to home page.'')\<rparr>"
    by (simp add: example_data_def example_action_def action_types_def unpack4_def example_str_def)
  from normalization_table [where d = "example_data (Action (example_action ''open_app''))" and key = "''converted_action''"
        and s = "''error_retry''" and a = "example_action ''open_app''" and tag = "''open_app''"
        and v = "Plain (JList [JInt 540, JInt 1200, JInt 540, JInt 600])" and str = example_str
        and x = "JInt 540" and y = "JInt 1200" and p = "JInt 540" and q = "JInt 600", THEN conjunct2, THEN conjunct2, THEN conjunct2, THEN conjunct2, THEN conjunct2, THEN conjunct2, THEN conjunct2, THEN conjunct1]
  have w9: "normalize_action example_str (example_data (Action (example_action ''open_app''))) ''converted_action''
      = Inr \<lparr>logged_type = ''open_app'', detail_type = ''string'', detail = Plain (JStr ''Clock'')\<rparr>"
    by (simp add: example_data_def example_action_def action_types_def unpack4_def example_str_def)
  from normalization_table [where d = "example_data (Action (example_action ''scroll''))" and key = "''converted_action''"
        and s = "''error_retry''" and a = "example_action ''scroll''" and tag = "''scroll''"
        and v = "Plain (JList [JInt 540, JInt 1200, JInt 540, JInt 600])" and str = example_str
        and x = "JInt 540" and y = "JInt 1200" and p = "JInt 540" and q = "JInt 600", THEN conjunct2, THEN conjunct2, THEN conjunct2, THEN conjunct2, THEN conjunct2, THEN conjunct2, THEN conjunct2, THEN conjunct2, THEN conjunct1]
  have w10: "normalize_action example_str (example_data (Action (example_action ''scroll''))) ''converted_action''
      = Inr \<lparr>logged_type = ''scroll'', detail_type = ''string'', detail = Plain (JStr ''The coordinates (540,1200) have been swiped to the down.'')\<rparr>"
    by (simp add: example_data_def example_action_def action_types_def unpack4_def example_str_def)
  from normalization_table [where d = "example_data (Action (example_action ''status''))" and key = "''converted_action''"
        and s = "''error_retry''" and a = "example_action ''status''" and tag = "''status''"
        and v = "Plain (JList [JInt 540, JInt 1200, JInt 540, JInt 600])" and str = example_str
        and x = "JInt 540" and y = "JInt 1200" and p = "JInt 540" and q = "JInt 600", THEN conjunct2, THEN conjunct2, THEN conjunct2, THEN conjunct2, THEN conjunct2, THEN conjunct2, THEN conjunct2, THEN conjunct2, THEN conjunct2, THEN conjunct1]
  have w11: "normalize_action example_str (example_data (Action (example_action ''status''))) ''converted_action''
      = Inr \<lparr>logged_type = ''status'', detail_type = ''string'', detail = Plain (JStr ''Task completed.'')\<rparr>"
    by (simp add: example_data_def example_action_def action_types_def unpack4_def example_str_def)
  from normalization_table [where d = "example_data (Action (example_action ''swipe''))" and key = "''converted_action''"
        and s = "''error_retry''" and a = "example_action ''swipe''" and tag = "''swipe''"
        and v = "Plain (JList [JInt 540, JInt 1200, JInt 540, JInt 600])" and str = example_str
        and x = "JInt 540" and y = "JInt 1200" and p = "JInt 540" and q = "JInt 600", THEN conjunct2, THEN conjunct2, THEN conjunct2, THEN conjunct2, THEN conjunct2, THEN conjunct2, THEN conjunct2, THEN conjunct2, THEN conjunct2, THEN conjunct2]
  have w12: "normalize_action example_str (example_data (Action (example_action ''swipe''))) ''converted_action''
      = Inr \<lparr>logged_type = ''swipe'', detail_type = ''string'', detail = Plain (JStr ''The swipe action has been performed starting from coordinates (540,1200) to (540,600).'')\<rparr>"
    by (simp add: example_data_def example_action_def action_types_def unpack4_def example_str_def)
  from w0 w1 w2 w3 w4 w5 w6 w7 w8 w9 w10 w11 w12 show ?thesis by (intro conjI)
qed

subsection \<open>A step that is logged\<close>

lemma handle_log_success:
  assumes "lookup (data resp) (screenshot_key a) = Inr (Pixels None)"
    and "normalize_action (py_str bi) (data resp) (grounded_action_key a) = Inr alog"
    and "sum_tokens a (data resp) (raw_response_key a) = Inr (p, c)"
    and "collect (data resp) (log_keys a) = Inr kvs"
  shows "handle_log bi a cnt resp st =
     (None,
      st\<lparr>dir := (dir st)\<lparr>pngs := pngs (dir st) @ [cnt - 1]\<rparr>,
         total_prompt_tokens := total_prompt_tokens st + p,
         total_completion_tokens := total_completion_tokens st + c,
         benchmark_log := benchmark_log st @
           [StepEntry \<lparr>step = cnt, logged = kvs, prompt_tokens = p, completion_tokens = c,
                       action = alog\<rparr>]\<rparr>)"
  using assms by (simp add: handle_log_def save_screenshot_def Let_def)

lemma example_data_reads:
  "lookup (example_data g) (screenshot_key T3A) = Inr (Pixels None)"
  "sum_tokens T3A (example_data g) (raw_response_key T3A) = Inr (1200, 35)"
  "collect (example_data g) (log_keys T3A) =
     Inr [(''action_output'', Plain (JStr ''Reason: ... Action: ...'')),
          (''summary'', Plain (JStr ''Summary of the step.''))]"
  "example_data g (grounded_action_key T3A) = Some g"
  by (simp_all add: example_data_def lookup_def screenshot_key_def raw_response_key_def
        log_keys_def grounded_action_key_def usage_of_def)

lemma example_actions:
  "normalize_action str (example_data (Action (example_action ''navigate_back'')))
       (grounded_action_key T3A)
     = Inr \<lparr>logged_type = ''navigate_back'', detail_type = ''string'',
            detail = Plain (JStr ''Back to the previous page.'')\<rparr>"
  "normalize_action str (example_data (Action (example_action ''status''))) (grounded_action_key T3A)
     = Inr \<lparr>logged_type = ''status'', detail_type = ''string'',
            detail = Plain (JStr ''Task completed.'')\<rparr>"
  by (simp_all add: normalize_action_object example_data_reads fixed_action_types
        example_action_def string_detail_def)

lemma one_to_three: "[1 .. 3::int] = [1, 2, 3]" "[1 .. 1::int] = [1]" "[1 .. 0::int] = []"
  by (simp_all add: upto.simps)

subsection \<open>Completion on the second of three rounds\<close>

text \<open>
  Claim C1, at an agent of kind T3A whose steps raise nothing and whose decision signals
  completion on step 2, with \<open>max_rounds = 3\<close>: \<^verbatim>\<open>log.json\<close> holds two step entries and
  the summary, with \<open>finish_signal = 1\<close>, and the exit code is 0; but \<open>total_steps\<close> is 1,
  not 2.
\<close>

theorem done_on_step_2_reports_one_step:
  "run bi clk \<lparr>agent_arg = T3A, max_rounds = 3\<rparr> done_on_step_2 empty_dir =
     (\<lparr>error_json = None,
       log_json = Some
         [StepEntry
            \<lparr>step = 1,
             logged = [(''action_output'', Plain (JStr ''Reason: ... Action: ...'')),
                       (''summary'', Plain (JStr ''Summary of the step.''))],
             prompt_tokens = 1200, completion_tokens = 35,
             action = \<lparr>logged_type = ''navigate_back'', detail_type = ''string'',
                       detail = Plain (JStr ''Back to the previous page.'')\<rparr>\<rparr>,
          StepEntry
            \<lparr>step = 2,
             logged = [(''action_output'', Plain (JStr ''Reason: ... Action: ...'')),
                       (''summary'', Plain (JStr ''Summary of the step.''))],
             prompt_tokens = 1200, completion_tokens = 35,
             action = \<lparr>logged_type = ''status'', detail_type = ''string'',
                       detail = Plain (JStr ''Task completed.'')\<rparr>\<rparr>,
          SummaryEntry
            \<lparr>total_steps = 1, finish_signal = 1,
             elapsed_time_initial = end_time_initial clk - start_time_initial clk,
             elapsed_time_exec = end_time_exec clk - start_time_exec clk,
             sum_prompt_tokens = 2400, sum_completion_tokens = 70\<rparr>],
       pngs = [0, 1]\<rparr>,
      Exit 0)"
proof -
  let ?step1 = "\<lparr>data = example_data (Action (example_action ''navigate_back'')), done_flag = False\<rparr>"
  let ?step2 = "\<lparr>data = example_data (Action (example_action ''status'')), done_flag = True\<rparr>"
  have first: "handle_log bi T3A 1 ?step1 st =
     (None,
      st\<lparr>dir := (dir st)\<lparr>pngs := pngs (dir st) @ [1 - 1]\<rparr>,
         total_prompt_tokens := total_prompt_tokens st + 1200,
         total_completion_tokens := total_completion_tokens st + 35,
         benchmark_log := benchmark_log st @
           [StepEntry \<lparr>step = 1,
              logged = [(''action_output'', Plain (JStr ''Reason: ... Action: ...'')),
                        (''summary'', Plain (JStr ''Summary of the step.''))],
              prompt_tokens = 1200, completion_tokens = 35,
              action = \<lparr>logged_type = ''navigate_back'', detail_type = ''string'',
                        detail = Plain (JStr ''Back to the previous page.'')\<rparr>\<rparr>]\<rparr>)" for st
    by (rule handle_log_success) (simp_all add: example_data_reads example_actions)
  have second: "handle_log bi T3A 2 ?step2 st =
     (None,
      st\<lparr>dir := (dir st)\<lparr>pngs := pngs (dir st) @ [2 - 1]\<rparr>,
         total_prompt_tokens := total_prompt_tokens st + 1200,
         total_completion_tokens := total_completion_tokens st + 35,
         benchmark_log := benchmark_log st @
           [StepEntry \<lparr>step = 2,
              logged = [(''action_output'', Plain (JStr ''Reason: ... Action: ...'')),
                        (''summary'', Plain (JStr ''Summary of the step.''))],
              prompt_tokens = 1200, completion_tokens = 35,
              action = \<lparr>logged_type = ''status'', detail_type = ''string'',
                        detail = Plain (JStr ''Task completed.'')\<rparr>\<rparr>]\<rparr>)" for st
    by (rule handle_log_success) (simp_all add: example_data_reads example_actions)
  have loop: "step_loop bi T3A done_on_step_2 [1, 2, 3] (init_state empty_dir) =
     \<lparr>is_done = True,
      benchmark_log =
        [StepEntry \<lparr>step = 1,
              logged = [(''action_output'', Plain (JStr ''Reason: ... Action: ...'')),
                        (''summary'', Plain (JStr ''Summary of the step.''))],
              prompt_tokens = 1200, completion_tokens = 35,
              action = \<lparr>logged_type = ''navigate_back'', detail_type = ''string'',
                        detail = Plain (JStr ''Back to the previous page.'')\<rparr>\<rparr>,
         StepEntry \<lparr>step = 2,
              logged = [(''action_output'', Plain (JStr ''Reason: ... Action: ...'')),
                        (''summary'', Plain (JStr ''Summary of the step.''))],
              prompt_tokens = 1200, completion_tokens = 35,
              action = \<lparr>logged_type = ''status'', detail_type = ''string'',
                        detail = Plain (JStr ''Task completed.'')\<rparr>\<rparr>],
      error_code = 0, total_prompt_tokens = 2400, total_completion_tokens = 70,
      action_cnt = Some 2,
      dir = \<lparr>error_json = None, log_json = None, pngs = [0, 1]\<rparr>\<rparr>"
    by (simp add: done_on_step_2_def first second init_state_def empty_dir_def)
  show ?thesis
    by (simp add: run_def one_to_three loop exit_code_def json_ok_def dumpable_def del: step_loop.simps)
qed

subsection \<open>A log-handling error\<close>

lemma click_without_coordinates_fails:
  "handle_log bi T3A cnt
     \<lparr>data = [''benchmark_screenshot'' \<mapsto> Pixels None,
              ''converted_action'' \<mapsto> Action (example_action ''click'')],
      done_flag = False\<rparr> st
   = (Some KeyError, st\<lparr>dir := (dir st)\<lparr>pngs := pngs (dir st) @ [cnt - 1]\<rparr>\<rparr>)"
proof -
  have "normalize_action (py_str bi)
          [''benchmark_screenshot'' \<mapsto> Pixels None,
           ''converted_action'' \<mapsto> Action (example_action ''click'')]
          ''converted_action'' = Inl KeyError"
    by (simp add: normalize_action_object pointer_action_type [where tag = "''click''"]
          example_action_def coordinates_detail_def lookup_def)
  then show ?thesis
    by (simp add: handle_log_def lookup_def screenshot_key_def grounded_action_key_def
          save_screenshot_def Let_def)
qed

text \<open>
  Claim C3, at a log-handling error in the last round (\<open>max_rounds = 1\<close>, a click reported
  without its coordinates): the error is logged and the exit code is 4, not 1.
\<close>

theorem log_error_in_last_round_exits_4:
  "run bi clk \<lparr>agent_arg = T3A, max_rounds = 1\<rparr> click_without_coordinates empty_dir =
     (\<lparr>error_json = Some [''Error handling log: '' @ exc_str bi KeyError],
       log_json = Some
         [SummaryEntry
            \<lparr>total_steps = 0, finish_signal = 0,
             elapsed_time_initial = end_time_initial clk - start_time_initial clk,
             elapsed_time_exec = end_time_exec clk - start_time_exec clk,
             sum_prompt_tokens = 0, sum_completion_tokens = 0\<rparr>],
       pngs = [0]\<rparr>,
      Exit 4)"
proof -
  have loop: "step_loop bi T3A click_without_coordinates [1] (init_state empty_dir) =
     \<lparr>is_done = False, benchmark_log = [], error_code = 1, total_prompt_tokens = 0,
      total_completion_tokens = 0, action_cnt = Some 1,
      dir = \<lparr>error_json = Some [''Error handling log: '' @ exc_str bi KeyError],
             log_json = None, pngs = [0]\<rparr>\<rparr>"
    by (simp add: click_without_coordinates_def click_without_coordinates_fails init_state_def
          empty_dir_def print_and_log_error_def)
  show ?thesis
    by (simp add: run_def one_to_three loop exit_code_def json_ok_def dumpable_def del: step_loop.simps)
qed

text \<open>The same error one round before the last: the exit code is 1.\<close>

lemma log_error_before_last_round_exits_1:
  "snd (run bi clk \<lparr>agent_arg = T3A, max_rounds = 2\<rparr> click_without_coordinates empty_dir) = Exit 1"
proof -
  have two: "[1 .. 2::int] = [1, 2]" by (simp add: upto.simps)
  have loop: "step_loop bi T3A click_without_coordinates [1, 2] (init_state empty_dir) =
     \<lparr>is_done = False, benchmark_log = [], error_code = 1, total_prompt_tokens = 0,
      total_completion_tokens = 0, action_cnt = Some 1,
      dir = \<lparr>error_json = Some [''Error handling log: '' @ exc_str bi KeyError],
             log_json = None, pngs = [0]\<rparr>\<rparr>"
    by (simp add: click_without_coordinates_def click_without_coordinates_fails init_state_def
          empty_dir_def print_and_log_error_def)
  show ?thesis
    by (simp add: run_def two loop exit_code_def json_ok_def dumpable_def del: step_loop.simps)
qed

subsection \<open>No round at all\<close>

text \<open>
  Claim C8, at \<open>max_rounds = 0\<close>: the loop ends without having started, the summary
  reads a loop variable that was never bound, and the script stops on the NameError
  before it writes \<^verbatim>\<open>log.json\<close>; the output directory is left as it was.
\<close>

theorem no_round_no_log:
  "run bi clk \<lparr>agent_arg = a, max_rounds = 0\<rparr> ag d = (d, Uncaught NameError)"
  by (simp add: run_def one_to_three init_state_def)

subsection \<open>Every run of at least one round\<close>

lemma handle_log_frame:
  "handle_log bi a cnt resp st = (r, st') \<Longrightarrow>
     is_done st' = is_done st \<and> error_code st' = error_code st \<and>
     action_cnt st' = action_cnt st \<and>
     error_json (dir st') = error_json (dir st) \<and> log_json (dir st') = log_json (dir st) \<and>
     (r = None \<longrightarrow> (\<exists>e. benchmark_log st' = benchmark_log st @ [StepEntry e] \<and> step e = cnt)) \<and>
     (r \<noteq> None \<longrightarrow> benchmark_log st' = benchmark_log st)"
  by (auto simp: handle_log_def Let_def split: sum.splits option.splits prod.splits) metis

text \<open>
  How the loop can end, started with no error and no completion: on a completion signal,
  on an agent-step exception, on a log-handling exception, or by running out of rounds.
  The log holds step entries only, and the loop variable is bound to the round the loop
  ended in.
\<close>

lemma step_loop_ends:
  assumes "\<not> is_done st" and "error_code st = 0" and "list_all is_step (benchmark_log st)"
    and "cnts \<noteq> []"
  shows "list_all is_step (benchmark_log (step_loop bi a ag cnts st)) \<and>
     (\<exists>c \<in> set cnts. action_cnt (step_loop bi a ag cnts st) = Some c \<and>
        (is_done (step_loop bi a ag cnts st) \<and> error_code (step_loop bi a ag cnts st) = 0 \<and>
           (\<exists>r. ag c = StepReturns r \<and> done_flag r)
         \<or> \<not> is_done (step_loop bi a ag cnts st) \<and> error_code (step_loop bi a ag cnts st) = 2 \<and>
           (\<exists>e. ag c = StepRaises e)
         \<or> \<not> is_done (step_loop bi a ag cnts st) \<and> error_code (step_loop bi a ag cnts st) = 1 \<and>
           (\<exists>r. ag c = StepReturns r)
         \<or> \<not> is_done (step_loop bi a ag cnts st) \<and> error_code (step_loop bi a ag cnts st) = 0 \<and>
           c = last cnts))"
  using assms
proof (induction cnts arbitrary: st)
  case Nil
  then show ?case by simp
next
  case (Cons cnt rest)
  let ?st0 = "st\<lparr>action_cnt := Some cnt\<rparr>"
  show ?case
  proof (cases "ag cnt")
    case (StepRaises e)
    with Cons.prems show ?thesis by (simp add: Let_def)
  next
    case (StepReturns resp)
    obtain r st1 where h: "handle_log bi a cnt resp ?st0 = (r, st1)"
      by (cases "handle_log bi a cnt resp ?st0") auto
    note fr = handle_log_frame [OF h]
    show ?thesis
    proof (cases r)
      case (Some e)
      with StepReturns h fr Cons.prems show ?thesis by (simp add: Let_def)
    next
      case None
      from fr None obtain en where en: "benchmark_log st1 = benchmark_log ?st0 @ [StepEntry en]"
        by auto
      have steps1: "list_all is_step (benchmark_log st1)"
        using en Cons.prems(3) by simp
      show ?thesis
      proof (cases "done_flag resp")
        case True
        with None StepReturns h fr Cons.prems steps1 show ?thesis by (simp add: Let_def)
      next
        case notdone: False
        have eq: "step_loop bi a ag (cnt # rest) st = step_loop bi a ag rest st1"
          using None StepReturns h notdone by (simp add: Let_def)
        show ?thesis
        proof (cases "rest = []")
          case True
          with eq fr Cons.prems steps1 show ?thesis by simp
        next
          case False
          have "\<not> is_done st1" "error_code st1 = 0"
            using fr Cons.prems by simp_all
          from Cons.IH [OF this steps1 False] False show ?thesis
            unfolding eq by auto
        qed
      qed
    qed
  qed
qed

text \<open>
  With at least one round, the script reaches \<^verbatim>\<open>json.dump\<close> with a list of step entries
  followed by one summary entry: it writes that list, or \<^verbatim>\<open>json.dump\<close> raises on a value
  of it.
\<close>

lemma run_dumps_steps_and_summary:
  assumes "1 \<le> max_rounds ar"
  shows "\<exists>steps s. list_all is_step steps \<and>
     (fst (run bi clk ar ag d) = (dir (step_loop bi (agent_arg ar) ag [1 .. max_rounds ar] (init_state d)))
         \<lparr>log_json := Some (steps @ [SummaryEntry s])\<rparr>
      \<or> snd (run bi clk ar ag d) = Uncaught TypeError)"
proof -
  let ?st = "step_loop bi (agent_arg ar) ag [1 .. max_rounds ar] (init_state d)"
  have ne: "[1 .. max_rounds ar] \<noteq> []" using assms by (simp add: upto.simps)
  from step_loop_ends [OF _ _ _ ne, of "init_state d" bi "agent_arg ar" ag]
  obtain c where c: "action_cnt ?st = Some c" and steps: "list_all is_step (benchmark_log ?st)"
    by (auto simp: init_state_def)
  show ?thesis
    using c steps by (auto simp: run_def Let_def simp del: step_loop.simps)
qed

text \<open>
  The exit code of such a run, when \<^verbatim>\<open>json.dump\<close> does not raise, by the way the loop ended
  in round \<open>c\<close>: 0 on a completion signal, 2 on an agent-step exception, 4 when the rounds
  ran out, and after a log-handling exception 1 before the last round and 4 in it.
\<close>

lemma run_exit_code:
  assumes "1 \<le> max_rounds ar" and "snd (run bi clk ar ag d) \<noteq> Uncaught TypeError"
  shows "\<exists>c \<in> {1 .. max_rounds ar}.
     snd (run bi clk ar ag d) = Exit 0 \<and> (\<exists>r. ag c = StepReturns r \<and> done_flag r)
     \<or> snd (run bi clk ar ag d) = Exit 2 \<and> (\<exists>e. ag c = StepRaises e)
     \<or> snd (run bi clk ar ag d) = Exit (if c = max_rounds ar then 4 else 1) \<and>
         (\<exists>r. ag c = StepReturns r) \<and>
         error_code (step_loop bi (agent_arg ar) ag [1 .. max_rounds ar] (init_state d)) = 1
     \<or> snd (run bi clk ar ag d) = Exit 4 \<and> c = max_rounds ar"
proof -
  let ?st = "step_loop bi (agent_arg ar) ag [1 .. max_rounds ar] (init_state d)"
  have ne: "[1 .. max_rounds ar] \<noteq> []" using assms(1) by (simp add: upto.simps)
  have lst: "last [1 .. max_rounds ar] = max_rounds ar"
    using assms(1) by (simp add: upto_rec2)
  from step_loop_ends [OF _ _ _ ne, of "init_state d" bi "agent_arg ar" ag]
  obtain c where c: "c \<in> set [1 .. max_rounds ar]" "action_cnt ?st = Some c"
    and ends: "is_done ?st \<and> error_code ?st = 0 \<and> (\<exists>r. ag c = StepReturns r \<and> done_flag r)
         \<or> \<not> is_done ?st \<and> error_code ?st = 2 \<and> (\<exists>e. ag c = StepRaises e)
         \<or> \<not> is_done ?st \<and> error_code ?st = 1 \<and> (\<exists>r. ag c = StepReturns r)
         \<or> \<not> is_done ?st \<and> error_code ?st = 0 \<and> c = last [1 .. max_rounds ar]"
    by (auto simp: init_state_def)
  have ex: "snd (run bi clk ar ag d) = Exit (exit_code (max_rounds ar) ?st c)"
    using c(2) assms(2) by (auto simp: run_def Let_def split: if_splits simp del: step_loop.simps)
  from c(1) have cin: "c \<in> {1 .. max_rounds ar}" by simp
  from ends consider
      (completed) "is_done ?st" "error_code ?st = 0" "\<exists>r. ag c = StepReturns r \<and> done_flag r"
    | (step_error) "\<not> is_done ?st" "error_code ?st = 2" "\<exists>e. ag c = StepRaises e"
    | (log_error) "\<not> is_done ?st" "error_code ?st = 1" "\<exists>r. ag c = StepReturns r"
    | (exhausted) "\<not> is_done ?st" "error_code ?st = 0" "c = max_rounds ar"
    using lst by auto
  then show ?thesis
  proof cases
    case completed
    then have "snd (run bi clk ar ag d) = Exit 0" by (simp add: ex exit_code_def)
    with completed(3) cin show ?thesis by blast
  next
    case step_error
    then have "snd (run bi clk ar ag d) = Exit 2" by (simp add: ex exit_code_def)
    with step_error(3) cin show ?thesis by blast
  next
    case log_error
    then have "snd (run bi clk ar ag d) = Exit (if c = max_rounds ar then 4 else 1)"
      by (simp add: ex exit_code_def)
    with log_error(2,3) cin show ?thesis by blast
  next
    case exhausted
    then have "snd (run bi clk ar ag d) = Exit 4" by (simp add: ex exit_code_def)
    with exhausted(3) cin show ?thesis by blast
  qed
qed

end
